theory Spec2Isabelle
  imports Main "HOL-Library.Word"
begin

unbundle bit_operations_syntax

section \<open>JavaScript values used by the service\<close>

text \<open>
  Every failure of the JavaScript code is a thrown \<open>Error\<close> carrying a message
  (\<open>throw new Error("...")\<close>, or a rejection coming out of the ethers library).
  A function that may throw returns \<open>js_error + 'a\<close>, with \<open>Inl\<close> for the throw.
\<close>

datatype js_error = Error string

text \<open>
  ethers v6 fee values are \<open>null | bigint\<close>. A bigint is an unbounded integer; \<open>null\<close>
  is \<open>None\<close>.
\<close>

type_synonym bigint = int

text \<open>
  JavaScript's \<open>!x\<close> on a \<open>null | bigint\<close>: true for \<open>null\<close> and for \<open>0n\<close>.
\<close>

definition js_not :: "bigint option \<Rightarrow> bool" where
  "js_not x = (case x of None \<Rightarrow> True | Some n \<Rightarrow> n = 0)"

text \<open>BigInt division \<open>a / b\<close> truncates towards zero (the divisor here is never \<open>0n\<close>).\<close>

definition bigint_div :: "bigint \<Rightarrow> bigint \<Rightarrow> bigint" where
  "bigint_div a b = sgn a * sgn b * (\<bar>a\<bar> div \<bar>b\<bar>)"

text \<open>\<open>ethers.parseUnits("n", "gwei")\<close> for a whole number \<open>n\<close>: \<open>n\<close> times \<open>10^9\<close> wei.\<close>

definition parseUnits_gwei :: "nat \<Rightarrow> bigint" where
  "parseUnits_gwei n = int n * 10 ^ 9"

section \<open>Fee estimator: \<open>getGasOverrides\<close>\<close>

text \<open>
  The part of the provider's \<open>FeeData\<close> that \<open>getGasOverrides\<close> reads, and the
  overrides object it returns. \<open>gasLimit\<close> is absent (\<open>None\<close>) until a caller sets it.
\<close>

record FeeData =
  maxFeePerGas :: "bigint option"
  maxPriorityFeePerGas :: "bigint option"

record gasOverrides =
  o_maxFeePerGas :: bigint
  o_maxPriorityFeePerGas :: bigint
  gasLimit :: "nat option"

definition fee_data_incomplete :: js_error where
  "fee_data_incomplete = Error ''Failed to fetch complete fee data from the provider.''"

definition amoyMinPriorityFee :: bigint where
  "amoyMinPriorityFee = parseUnits_gwei 32"

text \<open>
  \<open>getGasOverrides(provider)\<close> of \<open>handleKyc.js\<close> and of \<open>handleKycV6.js\<close> (the two
  bodies are the same). Its argument is the outcome of \<open>await provider.getFeeData()\<close>:
  a rejection propagates unchanged.
\<close>

definition getGasOverrides :: "js_error + FeeData \<Rightarrow> js_error + gasOverrides" where
  "getGasOverrides response =
     (case response of
        Inl e \<Rightarrow> Inl e
      | Inr feeData \<Rightarrow>
          if js_not (maxFeePerGas feeData) \<or> js_not (maxPriorityFeePerGas feeData)
          then Inl fee_data_incomplete
          else
            let priorityFee0 = the (maxPriorityFeePerGas feeData);
                priorityFee = (if priorityFee0 < amoyMinPriorityFee then amoyMinPriorityFee
                               else priorityFee0);
                bufferedPriorityFee = bigint_div (priorityFee * 110) 100;
                estimatedBaseFee = the (maxFeePerGas feeData) - the (maxPriorityFeePerGas feeData);
                newMaxFeePerGas = estimatedBaseFee + bufferedPriorityFee
            in Inr \<lparr>o_maxFeePerGas = newMaxFeePerGas,
                    o_maxPriorityFeePerGas = bufferedPriorityFee,
                    gasLimit = None\<rparr>)"

section \<open>Bytes, Keccak-256 and the encodings of ethers\<close>

type_synonym byte = "8 word"
type_synonym bytes = "byte list"
type_synonym address = "160 word"
type_synonym lane = "64 word"

text \<open>
  \<open>ethers.keccak256\<close> is the Keccak-256 sponge of Ethereum (rate 136 bytes, padding
  \<open>0x01 .. 0x80\<close>, 24 rounds of Keccak-f[1600]); it is library code, written here from
  the Keccak reference. The state is the list of its 25 lanes, lane \<open>(x, y)\<close> at index
  \<open>x + 5 * y\<close>.
\<close>

definition rotl64 :: "lane \<Rightarrow> nat \<Rightarrow> lane" where
  "rotl64 w n = take_bit 64 (push_bit n w) OR drop_bit (64 - n) w"

definition keccak_RC :: "lane list" where
  "keccak_RC =
    [0x0000000000000001, 0x0000000000008082, 0x800000000000808A, 0x8000000080008000,
     0x000000000000808B, 0x0000000080000001, 0x8000000080008081, 0x8000000000008009,
     0x000000000000008A, 0x0000000000000088, 0x0000000080008009, 0x000000008000000A,
     0x000000008000808B, 0x800000000000008B, 0x8000000000008089, 0x8000000000008003,
     0x8000000000008002, 0x8000000000000080, 0x000000000000800A, 0x800000008000000A,
     0x8000000080008081, 0x8000000000008080, 0x0000000080000001, 0x8000000080008008]"

text \<open>Rotation offset of lane \<open>x + 5 * y\<close>, and for each lane the lane that \<open>pi\<close> moves there.\<close>

definition keccak_rot :: "nat list" where
  "keccak_rot = [0, 1, 62, 28, 27,  36, 44, 6, 55, 20,  3, 10, 43, 25, 39,
                 41, 45, 15, 21, 8,  18, 2, 61, 56, 14]"

definition pi_src :: "nat list" where
  "pi_src = [0, 6, 12, 18, 24,  3, 9, 10, 16, 22,  1, 7, 13, 19, 20,
             4, 5, 11, 17, 23,  2, 8, 14, 15, 21]"

fun xor_lanes :: "lane list \<Rightarrow> lane list \<Rightarrow> lane list" where
  "xor_lanes (x # xs) (y # ys) = (x XOR y) # xor_lanes xs ys"
| "xor_lanes _ _ = []"

fun column_parity :: "lane list \<Rightarrow> lane list" where
  "column_parity (a0 # a1 # a2 # a3 # a4 # rest) =
     xor_lanes [a0, a1, a2, a3, a4] (column_parity rest)"
| "column_parity _ = [0, 0, 0, 0, 0]"

fun theta_D :: "lane list \<Rightarrow> lane list" where
  "theta_D [c0, c1, c2, c3, c4] =
     [c4 XOR rotl64 c1 1, c0 XOR rotl64 c2 1, c1 XOR rotl64 c3 1,
      c2 XOR rotl64 c4 1, c3 XOR rotl64 c0 1]"
| "theta_D _ = []"

fun add_D :: "lane list \<Rightarrow> lane list \<Rightarrow> lane list" where
  "add_D d (a0 # a1 # a2 # a3 # a4 # rest) = xor_lanes [a0, a1, a2, a3, a4] d @ add_D d rest"
| "add_D d _ = []"

definition theta :: "lane list \<Rightarrow> lane list" where
  "theta a = add_D (theta_D (column_parity a)) a"

fun gather :: "lane list \<Rightarrow> nat list \<Rightarrow> lane list" where
  "gather a [] = []"
| "gather a (i # js) = rotl64 (a ! i) (keccak_rot ! i) # gather a js"

definition rho_pi :: "lane list \<Rightarrow> lane list" where
  "rho_pi a = gather a pi_src"

fun chi :: "lane list \<Rightarrow> lane list" where
  "chi (b0 # b1 # b2 # b3 # b4 # rest) =
     [b0 XOR (NOT b1 AND b2), b1 XOR (NOT b2 AND b3), b2 XOR (NOT b3 AND b4),
      b3 XOR (NOT b4 AND b0), b4 XOR (NOT b0 AND b1)] @ chi rest"
| "chi _ = []"

fun iota :: "lane \<Rightarrow> lane list \<Rightarrow> lane list" where
  "iota rc (a0 # rest) = (a0 XOR rc) # rest"
| "iota rc [] = []"

fun keccak_rounds :: "lane list \<Rightarrow> lane list \<Rightarrow> lane list" where
  "keccak_rounds [] a = a"
| "keccak_rounds (rc # rcs) a = keccak_rounds rcs (iota rc (chi (rho_pi (theta a))))"

definition keccak_f :: "lane list \<Rightarrow> lane list" where
  "keccak_f a = keccak_rounds keccak_RC a"

text \<open>Lanes are read from and written to bytes little-endian.\<close>

fun lane_of_bytes :: "bytes \<Rightarrow> lane" where
  "lane_of_bytes [] = 0"
| "lane_of_bytes (b # bs) = ucast b OR push_bit 8 (lane_of_bytes bs)"

fun lanes_of_bytes :: "bytes \<Rightarrow> lane list" where
  "lanes_of_bytes (b0 # b1 # b2 # b3 # b4 # b5 # b6 # b7 # rest) =
     lane_of_bytes [b0, b1, b2, b3, b4, b5, b6, b7] # lanes_of_bytes rest"
| "lanes_of_bytes _ = []"

definition bytes_of_lane :: "lane \<Rightarrow> bytes" where
  "bytes_of_lane w =
     [ucast w, ucast (drop_bit 8 w), ucast (drop_bit 16 w), ucast (drop_bit 24 w),
      ucast (drop_bit 32 w), ucast (drop_bit 40 w), ucast (drop_bit 48 w),
      ucast (drop_bit 56 w)]"

text \<open>The last block (fewer than 136 bytes left) with the padding \<open>0x01 0x00* 0x80\<close>.\<close>

definition keccak_pad_last :: "bytes \<Rightarrow> bytes" where
  "keccak_pad_last m = (if length m = 135 then m @ [0x81]
                        else m @ [0x01] @ replicate (134 - length m) 0 @ [0x80])"

definition absorb_block :: "lane list \<Rightarrow> bytes \<Rightarrow> lane list" where
  "absorb_block st blk =
     keccak_f (xor_lanes st (lanes_of_bytes blk @ [0, 0, 0, 0, 0, 0, 0, 0]))"

fun keccak_absorb :: "lane list \<Rightarrow> bytes \<Rightarrow> lane list" where
  "keccak_absorb st m =
     (if 136 \<le> length m then keccak_absorb (absorb_block st (take 136 m)) (drop 136 m)
      else absorb_block st (keccak_pad_last m))"

declare keccak_absorb.simps [simp del]

definition keccak256 :: "bytes \<Rightarrow> bytes" where
  "keccak256 m = concat (map bytes_of_lane (take 4 (keccak_absorb (replicate 25 0) m)))"

subsection \<open>ABI encoding and packed encoding\<close>

text \<open>\<open>be_bytes k n\<close>: the \<open>k\<close> low-order bytes of \<open>n\<close>, big-endian.\<close>

fun be_bytes :: "nat \<Rightarrow> nat \<Rightarrow> bytes" where
  "be_bytes 0 n = []"
| "be_bytes (Suc k) n = be_bytes k (n div 256) @ [of_nat (n mod 256)]"

text \<open>
  The values the service encodes: \<open>address\<close>, \<open>uint256\<close> and \<open>bytes\<close>. A JavaScript
  number or bigint given for a \<open>uint256\<close> is an integer here; ethers throws when it is
  outside \<open>[0, 2^256)\<close>.
\<close>

datatype abi_value = AbiAddress address | AbiUint256 int | AbiBytes bytes

definition abi_word :: "nat \<Rightarrow> bytes" where
  "abi_word n = be_bytes 32 n"

fun abi_in_range :: "abi_value \<Rightarrow> bool" where
  "abi_in_range (AbiUint256 n) = (0 \<le> n \<and> n < 2 ^ 256)"
| "abi_in_range _ = True"

text \<open>
  \<open>AbiCoder.defaultAbiCoder().encode(types, values)\<close>: the heads in order (a static
  value itself, a dynamic value the offset of its tail), then the tails in order.
\<close>

fun abi_head :: "nat \<Rightarrow> abi_value \<Rightarrow> bytes" where
  "abi_head off (AbiAddress a) = abi_word (unat a)"
| "abi_head off (AbiUint256 n) = abi_word (nat n)"
| "abi_head off (AbiBytes d) = abi_word off"

fun abi_tail :: "abi_value \<Rightarrow> bytes" where
  "abi_tail (AbiBytes d) =
     abi_word (length d) @ d @ replicate ((32 - length d mod 32) mod 32) 0"
| "abi_tail _ = []"

fun abi_heads :: "nat \<Rightarrow> abi_value list \<Rightarrow> bytes" where
  "abi_heads off [] = []"
| "abi_heads off (v # vs) = abi_head off v @ abi_heads (off + length (abi_tail v)) vs"

definition abi_out_of_bounds :: js_error where
  "abi_out_of_bounds = Error ''value out-of-bounds''"

definition abi_encode :: "abi_value list \<Rightarrow> js_error + bytes" where
  "abi_encode vs =
     (if list_all abi_in_range vs
      then Inr (abi_heads (32 * length vs) vs @ concat (map abi_tail vs))
      else Inl abi_out_of_bounds)"

text \<open>\<open>ethers.solidityPacked\<close>: every value at its own width, nothing else.\<close>

fun packed_value :: "abi_value \<Rightarrow> bytes" where
  "packed_value (AbiAddress a) = be_bytes 20 (unat a)"
| "packed_value (AbiUint256 n) = be_bytes 32 (nat n)"
| "packed_value (AbiBytes d) = d"

definition solidityPacked :: "abi_value list \<Rightarrow> js_error + bytes" where
  "solidityPacked vs =
     (if list_all abi_in_range vs then Inr (concat (map packed_value vs))
      else Inl abi_out_of_bounds)"

definition solidityPackedKeccak256 :: "abi_value list \<Rightarrow> js_error + bytes" where
  "solidityPackedKeccak256 vs =
     (case solidityPacked vs of Inl e \<Rightarrow> Inl e | Inr b \<Rightarrow> Inr (keccak256 b))"

subsection \<open>Strings\<close>

text \<open>
  A JavaScript string is modelled by a \<open>string\<close> whose characters are its code units;
  the model covers the strings over the code points 0 to 255. \<open>ethers.toUtf8Bytes\<close>
  writes a code point below 128 as one byte and the others as two.
\<close>

definition utf8_char :: "char \<Rightarrow> bytes" where
  "utf8_char c =
     (if of_char c < (128 :: nat) then [of_char c]
      else [0xC0 OR drop_bit 6 (of_char c), 0x80 OR (of_char c AND 0x3F)])"

definition toUtf8Bytes :: "string \<Rightarrow> bytes" where
  "toUtf8Bytes s = concat (map utf8_char s)"

text \<open>\<open>String(n)\<close> for a length \<open>n\<close>: its decimal digits.\<close>

fun decimal :: "nat \<Rightarrow> string" where
  "decimal n = (if n < 10 then [char_of (48 + n)]
                else decimal (n div 10) @ [char_of (48 + n mod 10)])"

declare decimal.simps [simp del]

definition MessagePrefix :: string where
  "MessagePrefix = CHR 0x19 # ''Ethereum Signed Message:'' @ [CHR 0x0A]"

text \<open>\<open>ethers.hashMessage(message)\<close> for a message given as bytes (EIP-191).\<close>

definition hashMessage :: "bytes \<Rightarrow> bytes" where
  "hashMessage message =
     keccak256 (toUtf8Bytes MessagePrefix @ toUtf8Bytes (decimal (length message)) @ message)"

section \<open>The chain as the service sees it\<close>

text \<open>
  A transaction the code asks a signer to send: the contract, the signing wallet's key,
  the method with its arguments, and the overrides object (absent when the call passes
  none).
\<close>

datatype contract_call =
    CreateIdentityWithManagementKeys address string "bytes list"
  | AddKey bytes nat nat
  | AddClaim int nat address bytes bytes string
  | RegisterIdentity address address int
  | Mint address int

record transaction =
  tx_contract :: address
  tx_signer :: bytes
  tx_call :: contract_call
  tx_overrides :: "gasOverrides option"

text \<open>
  A log of a receipt, and what \<open>Interface.parseLog\<close> does with it: it throws, returns
  \<open>null\<close>, or returns a description with the event's name and arguments. Of the
  arguments the code reads only \<open>args.identity\<close>, and only of a \<open>WalletLinked\<close> event,
  where it is an address.
\<close>

record raw_log =
  log_address :: address
  log_topics :: "bytes list"
  log_data :: bytes

record LogDescription =
  name :: string
  args_identity :: address

datatype parse_result = ParseThrows | ParseNull | Parsed LogDescription

record receipt =
  receipt_hash :: string
  receipt_status :: nat
  logs :: "raw_log list"

text \<open>
  What happens to a transaction: the call that sends it rejects, or it returns a
  response with the transaction's hash, whose \<open>wait()\<close> then rejects or returns the
  receipt.
\<close>

datatype send_result = SendRejected js_error | Submitted string "js_error + receipt"

text \<open>
  Everything outside the process. The environment variables are \<open>None\<close> when unset or
  empty, and \<open>ADMIN_PRIVATE_KEY\<close>, when set, is a well-formed private key. The provider
  answers the \<open>k\<close>-th fee query with \<open>getFeeData k\<close>, and the \<open>k\<close>-th transaction with
  \<open>tx_outcome k\<close>. The two ABI files, which are not part of the sources, are present
  through the \<open>parseLog\<close> of their interfaces. The contract views answer read-only calls
  (first argument: the contract called).
\<close>

record chain =
  ADMIN_PRIVATE_KEY :: "bytes option"
  RPC_URL :: "string option"
  getFeeData :: "nat \<Rightarrow> js_error + FeeData"
  tx_outcome :: "nat \<Rightarrow> transaction \<Rightarrow> send_result"
  ID_FACTORY_ABI_parseLog :: "raw_log \<Rightarrow> parse_result"
  IDENTITY_REGISTRY_ABI_parseLog :: "raw_log \<Rightarrow> parse_result"
  getRecoveredAddress :: "address \<Rightarrow> bytes \<Rightarrow> bytes \<Rightarrow> js_error + address"
  isClaimValid :: "address \<Rightarrow> address \<Rightarrow> int \<Rightarrow> bytes \<Rightarrow> bytes \<Rightarrow> js_error + bool"

text \<open>What a run has done so far: the fee queries made and the transactions sent, in order.\<close>

record run =
  fee_queries :: nat
  submitted :: "transaction list"

text \<open>
  An asynchronous function of the source is a function from the run to its outcome (a
  thrown error or a value) and the run after it. \<open>bind_io\<close> is \<open>await\<close> followed by the
  rest of the function: an error ends it. A \<open>catch\<close> block that logs and rethrows
  changes nothing and is not written.
\<close>

type_synonym 'a io = "run \<Rightarrow> (js_error + 'a) \<times> run"

definition return_io :: "'a \<Rightarrow> 'a io" where
  "return_io x r = (Inr x, r)"

definition throw_io :: "js_error \<Rightarrow> 'a io" where
  "throw_io e r = (Inl e, r)"

definition bind_io :: "'a io \<Rightarrow> ('a \<Rightarrow> 'b io) \<Rightarrow> 'b io" where
  "bind_io m f r = (case m r of (Inl e, r') \<Rightarrow> (Inl e, r') | (Inr x, r') \<Rightarrow> f x r')"

definition lift_io :: "js_error + 'a \<Rightarrow> 'a io" where
  "lift_io v r = (v, r)"

text \<open>\<open>await getGasOverrides(provider)\<close>: one fee query, then the pure computation.\<close>

definition fetchGasOverrides :: "chain \<Rightarrow> gasOverrides io" where
  "fetchGasOverrides c r =
     (getGasOverrides (getFeeData c (fee_queries r)), r\<lparr>fee_queries := Suc (fee_queries r)\<rparr>)"

text \<open>\<open>await contract.method(args, overrides)\<close>: the transaction is sent.\<close>

definition send_tx :: "chain \<Rightarrow> transaction \<Rightarrow> (string \<times> (js_error + receipt)) io" where
  "send_tx c t r =
     (case tx_outcome c (length (submitted r)) t of
        SendRejected e \<Rightarrow> (Inl e, r\<lparr>submitted := submitted r @ [t]\<rparr>)
      | Submitted h w \<Rightarrow> (Inr (h, w), r\<lparr>submitted := submitted r @ [t]\<rparr>))"

definition missing_env :: js_error where
  "missing_env = Error ''Missing required environment variables (ADMIN_PRIVATE_KEY or RPC_URL).''"

definition checkEnvVariables :: "chain \<Rightarrow> js_error + unit" where
  "checkEnvVariables c =
     (if ADMIN_PRIVATE_KEY c = None \<or> RPC_URL c = None then Inl missing_env else Inr ())"

definition invalid_private_key :: js_error where
  "invalid_private_key = Error ''invalid private key''"

text \<open>\<open>new ethers.Wallet(process.env.ADMIN_PRIVATE_KEY, provider)\<close>.\<close>

definition adminWallet :: "chain \<Rightarrow> js_error + bytes" where
  "adminWallet c = (case ADMIN_PRIVATE_KEY c of None \<Rightarrow> Inl invalid_private_key | Some k \<Rightarrow> Inr k)"

section \<open>Identity provisioner\<close>

definition ID_FACTORY :: address where
  "ID_FACTORY = 0x39992CCEAEDB0fa8f4fd3f2FBC5134707635B371"

definition OPERATOR_ADDRESS :: address where
  "OPERATOR_ADDRESS = 0x0af700A3026adFddC10f7Aa8Ba2419e8503592f7"

definition KEY_PURPOSE_MANAGEMENT :: nat where "KEY_PURPOSE_MANAGEMENT = 1"
definition KEY_PURPOSE_CLAIM :: nat where "KEY_PURPOSE_CLAIM = 3"
definition KEY_TYPE_ECDSA :: nat where "KEY_TYPE_ECDSA = 1"

text \<open>\<open>ethers.keccak256(AbiCoder.defaultAbiCoder().encode(['address'], [a]))\<close>.\<close>

definition address_key :: "address \<Rightarrow> js_error + bytes" where
  "address_key a = (case abi_encode [AbiAddress a] of Inl e \<Rightarrow> Inl e | Inr b \<Rightarrow> Inr (keccak256 b))"

text \<open>
  \<open>configureAndTransferIdentity\<close> (the same in both files): two \<open>addKey\<close>
  transactions, each with its own fee quote and each awaited.
\<close>

definition configureAndTransferIdentity :: "chain \<Rightarrow> address \<Rightarrow> address \<Rightarrow> unit io" where
  "configureAndTransferIdentity c identityAddress userAddress =
     bind_io (lift_io (adminWallet c)) (\<lambda>wallet.
     bind_io (lift_io (address_key userAddress)) (\<lambda>userKey.
     bind_io (fetchGasOverrides c) (\<lambda>gasOverrides.
     bind_io (send_tx c \<lparr>tx_contract = identityAddress, tx_signer = wallet,
                tx_call = AddKey userKey KEY_PURPOSE_MANAGEMENT KEY_TYPE_ECDSA,
                tx_overrides = Some gasOverrides\<rparr>) (\<lambda>tx1.
     bind_io (lift_io (snd tx1)) (\<lambda>_.
     bind_io (fetchGasOverrides c) (\<lambda>gasOverrides2.
     bind_io (send_tx c \<lparr>tx_contract = identityAddress, tx_signer = wallet,
                tx_call = AddKey userKey KEY_PURPOSE_CLAIM KEY_TYPE_ECDSA,
                tx_overrides = Some gasOverrides2\<rparr>) (\<lambda>tx2.
     bind_io (lift_io (snd tx2)) (\<lambda>_.
     return_io ()))))))))"

definition event_not_found :: js_error where
  "event_not_found = Error ''Could not find the WalletLinked event in the transaction receipt.''"

text \<open>
  The loop of \<open>handleKyc.js\<close> over \<open>receipt.logs\<close>: a log whose parse throws, returns
  \<open>null\<close> or has another name is passed over; the first \<open>WalletLinked\<close> one sets
  \<open>identityAddress\<close> and ends the loop. \<open>None\<close> is the variable left \<open>undefined\<close>.
\<close>

fun scan_logs :: "(raw_log \<Rightarrow> parse_result) \<Rightarrow> raw_log list \<Rightarrow> address option" where
  "scan_logs parseLog [] = None"
| "scan_logs parseLog (log # rest) =
     (case parseLog log of
        ParseThrows \<Rightarrow> scan_logs parseLog rest
      | ParseNull \<Rightarrow> scan_logs parseLog rest
      | Parsed parsedLog \<Rightarrow>
          if name parsedLog = ''WalletLinked'' then Some (args_identity parsedLog)
          else scan_logs parseLog rest)"

text \<open>The creation transaction both files send.\<close>

definition creation_tx :: "bytes \<Rightarrow> address \<Rightarrow> string \<Rightarrow> bytes \<Rightarrow> gasOverrides \<Rightarrow> transaction" where
  "creation_tx wallet userAddress salt managementKey gasOverrides =
     \<lparr>tx_contract = ID_FACTORY, tx_signer = wallet,
      tx_call = CreateIdentityWithManagementKeys userAddress salt [managementKey],
      tx_overrides = Some gasOverrides\<rparr>"

text \<open>\<open>createIdentity\<close> of \<open>handleKyc.js\<close>.\<close>

definition createIdentity :: "chain \<Rightarrow> address \<Rightarrow> string \<Rightarrow> address io" where
  "createIdentity c userAddress salt =
     bind_io (lift_io (checkEnvVariables c)) (\<lambda>_.
     bind_io (lift_io (adminWallet c)) (\<lambda>wallet.
     bind_io (fetchGasOverrides c) (\<lambda>gasOverrides.
     bind_io (lift_io (address_key OPERATOR_ADDRESS)) (\<lambda>managementKey.
     bind_io (send_tx c (creation_tx wallet userAddress salt managementKey gasOverrides)) (\<lambda>tx.
     bind_io (lift_io (snd tx)) (\<lambda>receipt.
       case scan_logs (ID_FACTORY_ABI_parseLog c) (logs receipt) of
         None \<Rightarrow> throw_io event_not_found
       | Some identityAddress \<Rightarrow>
           bind_io (configureAndTransferIdentity c identityAddress userAddress) (\<lambda>_.
           return_io identityAddress)))))))"

text \<open>
  \<open>createIdentity\<close> of \<open>handleKycV6.js\<close>: \<open>receipt.logs.find\<close> with the registry's
  interface, then a second \<open>parseLog\<close> of the log found, whose \<open>args.identity\<close> is
  read (a \<open>TypeError\<close> if that parse returned \<open>null\<close>).
\<close>

definition is_WalletLinked :: "(raw_log \<Rightarrow> parse_result) \<Rightarrow> raw_log \<Rightarrow> bool" where
  "is_WalletLinked parseLog log =
     (case parseLog log of
        ParseThrows \<Rightarrow> False
      | ParseNull \<Rightarrow> False
      | Parsed parsedLog \<Rightarrow> name parsedLog = ''WalletLinked'')"

definition parse_threw :: js_error where
  "parse_threw = Error ''parseLog threw''"

definition null_args :: js_error where
  "null_args = Error ''Cannot read properties of null (reading args)''"

definition createIdentity_V6 :: "chain \<Rightarrow> address \<Rightarrow> string \<Rightarrow> address io" where
  "createIdentity_V6 c userAddress salt =
     bind_io (lift_io (checkEnvVariables c)) (\<lambda>_.
     bind_io (lift_io (adminWallet c)) (\<lambda>wallet.
     bind_io (fetchGasOverrides c) (\<lambda>gasOverrides.
     bind_io (lift_io (address_key OPERATOR_ADDRESS)) (\<lambda>managementKey.
     bind_io (send_tx c (creation_tx wallet userAddress salt managementKey gasOverrides)) (\<lambda>tx.
     bind_io (lift_io (snd tx)) (\<lambda>receipt.
       case find (is_WalletLinked (IDENTITY_REGISTRY_ABI_parseLog c)) (logs receipt) of
         None \<Rightarrow> throw_io event_not_found
       | Some walletLinkedLog \<Rightarrow>
           (case IDENTITY_REGISTRY_ABI_parseLog c walletLinkedLog of
              ParseThrows \<Rightarrow> throw_io parse_threw
            | ParseNull \<Rightarrow> throw_io null_args
            | Parsed parsedEvent \<Rightarrow>
                bind_io (configureAndTransferIdentity c (args_identity parsedEvent) userAddress)
                  (\<lambda>_. return_io (args_identity parsedEvent)))))))))"

section \<open>Claim issuer\<close>

text \<open>
  The signature \<open>{r, s, v}\<close> of ethers: \<open>r\<close> and \<open>s\<close> are 32 bytes each, \<open>v\<close> is 27 or
  28, and \<open>s\<close> is canonical (its top bit is clear).
\<close>

record ecdsa_sig =
  sig_r :: bytes
  sig_s :: bytes
  sig_v :: nat

definition wf_sig :: "ecdsa_sig \<Rightarrow> bool" where
  "wf_sig sg = (length (sig_r sg) = 32 \<and> length (sig_s sg) = 32 \<and>
                hd (sig_s sg) < 0x80 \<and> (sig_v sg = 27 \<or> sig_v sg = 28))"

text \<open>
  secp256k1 is not modelled. The three operations of ethers on it are parameters:
  \<open>SigningKey.sign(digest)\<close> of a private key, \<open>recoverAddress(digest, signature)\<close>,
  and the address of a private key's wallet.
\<close>

record signing =
  sign :: "bytes \<Rightarrow> bytes \<Rightarrow> ecdsa_sig"
  recoverAddress :: "bytes \<Rightarrow> ecdsa_sig \<Rightarrow> address"
  computeAddress :: "bytes \<Rightarrow> address"

text \<open>
  What the properties below assume of them: a signature is well formed, and recovery
  from the signed digest gives the signer's address.
\<close>

definition signing_ok :: "signing \<Rightarrow> bool" where
  "signing_ok S = (\<forall>k digest. wf_sig (sign S k digest) \<and>
                     recoverAddress S digest (sign S k digest) = computeAddress S k)"

text \<open>\<open>Signature.serialized\<close>: \<open>r\<close>, \<open>s\<close> and the byte \<open>v\<close>.\<close>

definition serialized :: "ecdsa_sig \<Rightarrow> bytes" where
  "serialized sg = sig_r sg @ sig_s sg @ [of_nat (sig_v sg)]"

definition invalid_signature :: js_error where
  "invalid_signature = Error ''invalid signature''"

text \<open>\<open>Signature.from\<close> of an object \<open>{r, s, v}\<close>, and of 65 bytes.\<close>

definition Signature_from :: "ecdsa_sig \<Rightarrow> js_error + ecdsa_sig" where
  "Signature_from sg = (if wf_sig sg then Inr sg else Inl invalid_signature)"

definition Signature_from_bytes :: "bytes \<Rightarrow> js_error + ecdsa_sig" where
  "Signature_from_bytes b =
     (if length b \<noteq> 65 then Inl invalid_signature
      else let v = unat (b ! 64) in
        if hd (take 32 (drop 32 b)) \<ge> 0x80 then Inl invalid_signature
        else if v = 0 \<or> v = 27
          then Inr \<lparr>sig_r = take 32 b, sig_s = take 32 (drop 32 b), sig_v = 27\<rparr>
        else if v = 1 \<or> v = 28
          then Inr \<lparr>sig_r = take 32 b, sig_s = take 32 (drop 32 b), sig_v = 28\<rparr>
        else Inl invalid_signature)"

definition CLAIM_ISSUER_ADDRESS :: address where
  "CLAIM_ISSUER_ADDRESS = 0xd75849340fa68E19610791c398880D8a4a089096"

text \<open>
  An address argument is \<open>None\<close> when it is a string that \<open>ethers.isAddress\<close> rejects.
\<close>

definition invalid_user_address :: js_error where
  "invalid_user_address = Error ''Invalid user address provided.''"

definition invalid_onchain_id :: js_error where
  "invalid_onchain_id = Error ''Invalid onchain ID address provided.''"

definition issuer_key_not_found :: js_error where
  "issuer_key_not_found = Error ''Issuer private key (ADMIN_PRIVATE_KEY) not found in .env''"

definition invalid_address :: js_error where
  "invalid_address = Error ''invalid address''"

record issued =
  i_signature :: ecdsa_sig
  i_issuerAddress :: address
  i_dataHash :: bytes
  i_topic :: int

text \<open>\<open>issueKycClaimSignature\<close> of \<open>handleKyc.js\<close> (its \<open>countryCode\<close> is not used).\<close>

definition issueKycClaimSignature ::
  "signing \<Rightarrow> chain \<Rightarrow> address option \<Rightarrow> address option \<Rightarrow> string \<Rightarrow> int \<Rightarrow> js_error + issued" where
  "issueKycClaimSignature S c userAddress onchainIDAddress claimData topic =
     (case userAddress of None \<Rightarrow> Inl invalid_user_address | Some _ \<Rightarrow>
      case onchainIDAddress of None \<Rightarrow> Inl invalid_onchain_id | Some onchainID \<Rightarrow>
      case ADMIN_PRIVATE_KEY c of None \<Rightarrow> Inl issuer_key_not_found | Some issuerPrivateKey \<Rightarrow>
      case abi_encode [AbiAddress onchainID, AbiUint256 topic, AbiBytes (toUtf8Bytes claimData)] of
        Inl e \<Rightarrow> Inl e
      | Inr encoded \<Rightarrow>
          let dataHash = keccak256 encoded;
              ethHash = hashMessage dataHash;
              signature = sign S issuerPrivateKey ethHash
          in Inr \<lparr>i_signature = signature, i_issuerAddress = CLAIM_ISSUER_ADDRESS,
                  i_dataHash = dataHash, i_topic = topic\<rparr>)"

text \<open>The claim object both files hand to \<open>submitClaim\<close>.\<close>

record claim =
  topic :: int
  scheme :: nat
  issuer :: address
  signature :: bytes
  data :: bytes
  uri :: string

text \<open>
  \<open>generateClaimSignature\<close> of \<open>handleKyc.js\<close>: the wrapper the \<open>/signature\<close> endpoint
  calls, with the payload \<open>"KYC"\<close>.
\<close>

definition generateClaimSignature ::
  "signing \<Rightarrow> chain \<Rightarrow> address option \<Rightarrow> address option \<Rightarrow> int \<Rightarrow> js_error + claim" where
  "generateClaimSignature S c userAddress identityAddress topic' =
     (case issueKycClaimSignature S c userAddress identityAddress ''KYC'' topic' of
        Inl e \<Rightarrow> Inl e
      | Inr result \<Rightarrow>
          (case Signature_from (i_signature result) of
             Inl e \<Rightarrow> Inl e
           | Inr sg \<Rightarrow>
               Inr \<lparr>topic = i_topic result, scheme = 1, issuer = i_issuerAddress result,
                    signature = serialized sg, data = toUtf8Bytes ''KYC'', uri = []\<rparr>))"

text \<open>
  \<open>generateClaimSignature\<close> of \<open>handleKycV6.js\<close>;
  \<open>wallet.signMessage(m)\<close> is \<open>signingKey.sign(hashMessage(m)).serialized\<close>.
\<close>

definition signMessage :: "signing \<Rightarrow> bytes \<Rightarrow> bytes \<Rightarrow> bytes" where
  "signMessage S privateKey msg = serialized (sign S privateKey (hashMessage msg))"

definition generateClaimSignature_V6 ::
  "signing \<Rightarrow> chain \<Rightarrow> address option \<Rightarrow> int \<Rightarrow> string \<Rightarrow> js_error + claim" where
  "generateClaimSignature_V6 S c identityAddress topic' claimDataString =
     (case adminWallet c of Inl e \<Rightarrow> Inl e | Inr issuerWallet \<Rightarrow>
      case identityAddress of None \<Rightarrow> Inl invalid_address | Some identity \<Rightarrow>
      case abi_encode [AbiAddress identity, AbiUint256 topic',
                       AbiBytes (toUtf8Bytes claimDataString)] of
        Inl e \<Rightarrow> Inl e
      | Inr encoded \<Rightarrow>
          let dataHash = keccak256 encoded;
              signature' = signMessage S issuerWallet dataHash
          in Inr \<lparr>topic = topic', scheme = 1, issuer = computeAddress S issuerWallet,
                  signature = signature', data = toUtf8Bytes claimDataString, uri = []\<rparr>)"

text \<open>
  The signature \<open>sigVerify.js\<close> makes for a claim: the packed hash
  (\<open>solidityKeccak256\<close>) signed as it is, with \<open>signDigest\<close> and no message prefix,
  then joined (\<open>joinSignature\<close>) into \<open>r\<close>, \<open>s\<close> and the byte \<open>v\<close>.
\<close>

definition sigVerify_signature :: "signing \<Rightarrow> bytes \<Rightarrow> address \<Rightarrow> int \<Rightarrow> bytes \<Rightarrow> js_error + bytes" where
  "sigVerify_signature S privateKey identityAddress claimTopic claimData =
     (case solidityPackedKeccak256
             [AbiAddress identityAddress, AbiUint256 claimTopic, AbiBytes claimData] of
        Inl e \<Rightarrow> Inl e
      | Inr rawDataHash \<Rightarrow> Inr (serialized (sign S privateKey rawDataHash)))"

section \<open>Claim submitter\<close>

definition signature_verification_failed :: js_error where
  "signature_verification_failed =
     Error ''Signature verification failed! Recovered address does not match issuer.''"

text \<open>
  The pre-flight check of \<open>submitClaim\<close> in \<open>handleKycV6.js\<close>: the body of its second
  \<open>try\<close>. Addresses are compared as numbers, which is the comparison of their
  lower-cased texts.
\<close>

definition preflight_dataHash :: "address \<Rightarrow> int \<Rightarrow> bytes \<Rightarrow> js_error + bytes" where
  "preflight_dataHash identityAddress claimTopic claimData =
     solidityPackedKeccak256 [AbiAddress identityAddress, AbiUint256 claimTopic, AbiBytes claimData]"

definition preflight :: "chain \<Rightarrow> address \<Rightarrow> claim \<Rightarrow> js_error + unit" where
  "preflight c identityAddress claimDetails =
     (case preflight_dataHash identityAddress (topic claimDetails) (data claimDetails) of
        Inl e \<Rightarrow> Inl e
      | Inr dataHash \<Rightarrow>
          (case getRecoveredAddress c identityAddress (signature claimDetails) dataHash of
             Inl e \<Rightarrow> Inl e
           | Inr recoveredAddress \<Rightarrow>
               if recoveredAddress \<noteq> issuer claimDetails
               then Inl signature_verification_failed else Inr ()))"

definition addClaim_tx :: "address \<Rightarrow> bytes \<Rightarrow> claim \<Rightarrow> gasOverrides \<Rightarrow> transaction" where
  "addClaim_tx identityAddress userWallet claimDetails gasOverrides =
     \<lparr>tx_contract = identityAddress, tx_signer = userWallet,
      tx_call = AddClaim (topic claimDetails) (scheme claimDetails) (issuer claimDetails)
                  (signature claimDetails) (data claimDetails) (uri claimDetails),
      tx_overrides = Some gasOverrides\<rparr>"

text \<open>
  \<open>submitClaim\<close> of \<open>handleKycV6.js\<close>. Its \<open>catch\<close> after the pre-flight check logs
  the error and returns: the function ends without an error and without a value.
\<close>

definition submitClaim_V6 :: "chain \<Rightarrow> address \<Rightarrow> bytes \<Rightarrow> claim \<Rightarrow> unit io" where
  "submitClaim_V6 c identityAddress userWallet claimDetails =
     bind_io (lift_io (checkEnvVariables c)) (\<lambda>_.
       case preflight c identityAddress claimDetails of
         Inl e \<Rightarrow> return_io ()
       | Inr _ \<Rightarrow>
           bind_io (fetchGasOverrides c) (\<lambda>gasOverrides.
           bind_io (send_tx c (addClaim_tx identityAddress userWallet claimDetails gasOverrides)) (\<lambda>tx.
           bind_io (lift_io (snd tx)) (\<lambda>_.
           return_io ()))))"

text \<open>
  \<open>submitClaim\<close> of \<open>handleKyc.js\<close>: \<open>checkIsClaimValid\<close> is awaited and its result
  dropped; the gas limit is set on the fee quote; the receipt's status is only logged.
\<close>

definition checkIsClaimValid :: "chain \<Rightarrow> address \<Rightarrow> int \<Rightarrow> bytes \<Rightarrow> bytes \<Rightarrow> js_error + bool" where
  "checkIsClaimValid c identityAddress claimTopic sg claimData =
     isClaimValid c identityAddress identityAddress claimTopic sg claimData"

definition submitClaim :: "chain \<Rightarrow> address \<Rightarrow> bytes \<Rightarrow> claim \<Rightarrow> unit io" where
  "submitClaim c identityAddress userWallet claimDetails =
     bind_io (lift_io (checkEnvVariables c)) (\<lambda>_.
     bind_io (lift_io (checkIsClaimValid c identityAddress (topic claimDetails)
                         (signature claimDetails) (data claimDetails))) (\<lambda>_.
     bind_io (fetchGasOverrides c) (\<lambda>gasOverrides.
     bind_io (send_tx c (addClaim_tx identityAddress userWallet claimDetails
                           (gasOverrides\<lparr>gasLimit := Some 500000\<rparr>))) (\<lambda>tx.
     bind_io (lift_io (snd tx)) (\<lambda>receipt.
     return_io ())))))"

section \<open>Registry client, minting and their endpoints\<close>

definition IDENTITY_REGISTRY :: address where
  "IDENTITY_REGISTRY = 0xAa7bdF67038D0c8a8F14418eeDBFb965213732Da"

text \<open>\<open>addToIdentityRegistry\<close> of \<open>handleKyc.js\<close>; it returns \<open>true\<close>.\<close>

definition registerIdentity_tx ::
  "bytes \<Rightarrow> address \<Rightarrow> address \<Rightarrow> int \<Rightarrow> gasOverrides \<Rightarrow> transaction" where
  "registerIdentity_tx wallet userAddress identityAddress countryCode gasOverrides =
     \<lparr>tx_contract = IDENTITY_REGISTRY, tx_signer = wallet,
      tx_call = RegisterIdentity userAddress identityAddress countryCode,
      tx_overrides = Some gasOverrides\<rparr>"

definition addToIdentityRegistry :: "chain \<Rightarrow> address \<Rightarrow> address \<Rightarrow> int \<Rightarrow> bool io" where
  "addToIdentityRegistry c userAddress identityAddress countryCode =
     bind_io (lift_io (adminWallet c)) (\<lambda>wallet.
     bind_io (fetchGasOverrides c) (\<lambda>gasOverrides.
     bind_io (send_tx c (registerIdentity_tx wallet userAddress identityAddress countryCode
                           gasOverrides)) (\<lambda>tx.
     bind_io (lift_io (snd tx)) (\<lambda>_.
     return_io True))))"

definition MINT_TOKEN_ADDRESS :: address where
  "MINT_TOKEN_ADDRESS = 0x3eaC25f463ed170fC79EfD629A0BD93f9336A016"

definition mint_tx :: "bytes \<Rightarrow> address \<Rightarrow> address \<Rightarrow> int \<Rightarrow> transaction" where
  "mint_tx wallet tokenAddress to amount =
     \<lparr>tx_contract = tokenAddress, tx_signer = wallet, tx_call = Mint to amount,
      tx_overrides = None\<rparr>"

text \<open>
  \<open>mintTokens\<close> of \<open>invest.js\<close>. The assignment inside its first \<open>console.log\<close>
  replaces the parameter \<open>tokenAddress\<close>; the \<open>let\<close> below shadows it likewise.
\<close>

definition mintTokens :: "chain \<Rightarrow> address \<Rightarrow> int \<Rightarrow> address \<Rightarrow> string io" where
  "mintTokens c to amount tokenAddress =
     bind_io (lift_io (checkEnvVariables c)) (\<lambda>_.
     let tokenAddress = MINT_TOKEN_ADDRESS in
     bind_io (lift_io (adminWallet c)) (\<lambda>wallet.
     bind_io (send_tx c (mint_tx wallet tokenAddress to amount)) (\<lambda>tx.
     bind_io (lift_io (snd tx)) (\<lambda>_.
     return_io (fst tx)))))"

text \<open>
  The two endpoints of the server. A field of the request body is \<open>None\<close> when it is
  missing or an empty string; a number is also falsy when it is 0. A response is its
  status and the fields of its JSON body.
\<close>

datatype js_value = JsBool bool | JsString string

record response =
  status :: nat
  body :: "(string \<times> js_value) list"

definition error_message :: "js_error \<Rightarrow> string" where
  "error_message e = (case e of Error m \<Rightarrow> m)"

definition post_register ::
  "chain \<Rightarrow> address option \<Rightarrow> address option \<Rightarrow> int option \<Rightarrow> run \<Rightarrow> response \<times> run" where
  "post_register c userAddress identityAddress countryCode r =
     (if userAddress = None \<or> identityAddress = None \<or> js_not countryCode
      then (\<lparr>status = 400,
              body = [(''error'',
                       JsString ''userAddress, identityAddress, and countryCode are required.'')]\<rparr>, r)
      else (case addToIdentityRegistry c (the userAddress) (the identityAddress)
                   (the countryCode) r of
              (Inr txHash, r') \<Rightarrow>
                (\<lparr>status = 200, body = [(''transactionHash'', JsBool txHash)]\<rparr>, r')
            | (Inl err, r') \<Rightarrow>
                (\<lparr>status = 500,
                  body = [(''error'', JsString ''Failed to register identity.''),
                          (''details'', JsString (error_message err))]\<rparr>, r')))"

definition post_invest ::
  "chain \<Rightarrow> address option \<Rightarrow> int option \<Rightarrow> address option \<Rightarrow> run \<Rightarrow> response \<times> run" where
  "post_invest c to amount tokenAddress r =
     (if to = None \<or> js_not amount \<or> tokenAddress = None
      then (\<lparr>status = 400,
              body = [(''error'', JsString ''to, amount, and tokenAddress are required.'')]\<rparr>, r)
      else (case mintTokens c (the to) (the amount) (the tokenAddress) r of
              (Inr txHash, r') \<Rightarrow>
                (\<lparr>status = 200, body = [(''transactionHash'', JsString txHash)]\<rparr>, r')
            | (Inl err, r') \<Rightarrow>
                (\<lparr>status = 500,
                  body = [(''error'', JsString ''Failed to mint tokens.''),
                          (''details'', JsString (error_message err))]\<rparr>, r')))"

section \<open>The claim protocol as the specification words it\<close>

text \<open>
  The specification's canonical hash: the standard ABI encoding of the tuple
  (subject identity address, topic, payload bytes), that is, the address and the topic
  in one 32-byte word each, the offset 96 of the payload, the payload's length, and
  the payload padded with zeros to a multiple of 32 bytes; then Keccak-256.
\<close>

definition spec_abi_tuple :: "address \<Rightarrow> nat \<Rightarrow> bytes \<Rightarrow> bytes" where
  "spec_abi_tuple subject topic' payload =
     be_bytes 32 (unat subject) @ be_bytes 32 topic' @ be_bytes 32 96 @
     be_bytes 32 (length payload) @ payload @
     replicate ((32 - length payload mod 32) mod 32) 0"

definition spec_dataHash :: "address \<Rightarrow> nat \<Rightarrow> bytes \<Rightarrow> bytes" where
  "spec_dataHash subject topic' payload = keccak256 (spec_abi_tuple subject topic' payload)"

text \<open>
  The specification's personal-sign transform of a 32-byte hash (EIP-191): the hash of
  the byte \<open>0x19\<close>, the text \<open>Ethereum Signed Message:\<close>, a line feed, the text \<open>32\<close>
  and the hash.
\<close>

definition spec_personal_digest :: "bytes \<Rightarrow> bytes" where
  "spec_personal_digest h =
     keccak256 ([0x19] @ map of_char ''Ethereum Signed Message:'' @ [0x0A] @
                map of_char ''32'' @ h)"

text \<open>
  The specification's \<open>verifyLocally(claim, subjectIdentityAddress)\<close>: recompute the
  hash as issuance does, recover the signing address from the claim's signature and
  that hash, and compare it with the claim's issuer.
\<close>

definition spec_verifyLocally :: "signing \<Rightarrow> claim \<Rightarrow> address \<Rightarrow> bool" where
  "spec_verifyLocally S claimDetails subject =
     (case Signature_from_bytes (signature claimDetails) of
        Inl e \<Rightarrow> False
      | Inr sg \<Rightarrow>
          recoverAddress S
            (spec_personal_digest
               (spec_dataHash subject (nat (topic claimDetails)) (data claimDetails))) sg
          = issuer claimDetails)"

section \<open>A signing scheme for the examples\<close>

text \<open>
  A stand-in for secp256k1 that satisfies \<open>signing_ok\<close>, for the closed examples: the
  signature carries the key in \<open>r\<close> and the digest in \<open>s\<close>, recovery checks the digest
  and reads the address off \<open>r\<close>, and an address is the key read as a big-endian number.
\<close>

definition be_nat :: "bytes \<Rightarrow> nat" where
  "be_nat b = foldl (\<lambda>n x. 256 * n + unat x) 0 b"

definition demo_r :: "bytes \<Rightarrow> bytes" where
  "demo_r k = take 32 (k @ replicate 32 0)"

definition demo_s :: "bytes \<Rightarrow> bytes" where
  "demo_s digest = 0 # take 31 (digest @ replicate 31 0)"

definition demo_signing :: signing where
  "demo_signing =
     \<lparr>sign = (\<lambda>k digest. \<lparr>sig_r = demo_r k, sig_s = demo_s digest, sig_v = 27\<rparr>),
      recoverAddress = (\<lambda>digest sg. if sig_s sg = demo_s digest
                                       then word_of_nat (be_nat (sig_r sg)) else 0),
      computeAddress = (\<lambda>k. word_of_nat (be_nat (demo_r k)))\<rparr>"

definition demo_claim :: claim where
  "demo_claim = \<lparr>topic = 42, scheme = 1, issuer = OPERATOR_ADDRESS, signature = [],
                  data = [], uri = []\<rparr>"

section \<open>A chain for the examples\<close>

text \<open>
  A chain on which every call succeeds, for the closed examples below: both environment
  variables are set; the provider reports a max fee of 70 Gwei and a priority fee of
  30 Gwei; every transaction is mined with the receipt logs \<open>ls\<close>; a contract asked to
  recover an address answers \<open>recovered\<close>. Its interfaces read a log by its first
  topic: none makes the parse throw, \<open>[1]\<close> is a \<open>WalletLinked\<close> event whose identity
  is the log's address, \<open>[2]\<close> is another event, anything else is unknown.
\<close>

definition demo_key :: bytes where
  "demo_key = replicate 31 0 @ [1]"

definition demo_parseLog :: "raw_log \<Rightarrow> parse_result" where
  "demo_parseLog l =
     (case log_topics l of
        [] \<Rightarrow> ParseThrows
      | t # _ \<Rightarrow>
          if t = [1] then Parsed \<lparr>name = ''WalletLinked'', args_identity = log_address l\<rparr>
          else if t = [2] then Parsed \<lparr>name = ''Deployed'', args_identity = 0\<rparr>
          else ParseNull)"

definition demo_receipt :: "raw_log list \<Rightarrow> receipt" where
  "demo_receipt ls = \<lparr>receipt_hash = ''0x5e11'', receipt_status = 1, logs = ls\<rparr>"

definition demo_chain :: "raw_log list \<Rightarrow> js_error + address \<Rightarrow> chain" where
  "demo_chain ls recovered =
     \<lparr>ADMIN_PRIVATE_KEY = Some demo_key,
      RPC_URL = Some ''http://localhost:8545'',
      getFeeData = (\<lambda>k. Inr \<lparr>maxFeePerGas = Some 70000000000,
                               maxPriorityFeePerGas = Some 30000000000\<rparr>),
      tx_outcome = (\<lambda>k t. Submitted ''0x5e11'' (Inr (demo_receipt ls))),
      ID_FACTORY_ABI_parseLog = demo_parseLog,
      IDENTITY_REGISTRY_ABI_parseLog = demo_parseLog,
      getRecoveredAddress = (\<lambda>a sg h. recovered),
      isClaimValid = (\<lambda>a i t sg d. Inr False)\<rparr>"

definition demo_quote :: gasOverrides where
  "demo_quote = \<lparr>o_maxFeePerGas = 75200000000, o_maxPriorityFeePerGas = 35200000000,
                  gasLimit = None\<rparr>"

definition run0 :: run where
  "run0 = \<lparr>fee_queries = 0, submitted = []\<rparr>"

definition USER :: address where
  "USER = 0x85EBD6dC97d56F62e371382b38EAe91f3bb4ecb2"

definition IDENTITY :: address where
  "IDENTITY = 0xDe9Fda56D152aBe11Aa64aeb5eAbC1eA8049A2eb"

definition demo_log :: "address \<Rightarrow> bytes list \<Rightarrow> raw_log" where
  "demo_log a ts = \<lparr>log_address = a, log_topics = ts, log_data = []\<rparr>"

text \<open>Receipt logs with no \<open>WalletLinked\<close> event, and the same followed by two.\<close>

definition demo_logs_unlinked :: "raw_log list" where
  "demo_logs_unlinked = [demo_log 5 [], demo_log 6 [[2]], demo_log 7 [[3]]]"

definition demo_logs_linked :: "raw_log list" where
  "demo_logs_linked = demo_logs_unlinked @ [demo_log IDENTITY [[1]], demo_log USER [[1]]]"

text \<open>
  The example chain with a contract whose \<open>getRecoveredAddress\<close> recovers, under the
  stand-in scheme, from the signature and the hash it is given, as it is given (this is
  how \<open>sigVerify.js\<close> uses the view); bytes that are not a signature give the zero
  address.
\<close>

definition demo_getRecoveredAddress :: "address \<Rightarrow> bytes \<Rightarrow> bytes \<Rightarrow> js_error + address" where
  "demo_getRecoveredAddress a sg h =
     (case Signature_from_bytes sg of
        Inl e \<Rightarrow> Inr 0
      | Inr s \<Rightarrow> Inr (recoverAddress demo_signing h s))"

definition demo_chain_recovering :: chain where
  "demo_chain_recovering =
     (demo_chain [] (Inr 0))\<lparr>getRecoveredAddress := demo_getRecoveredAddress\<rparr>"

text \<open>
  Two claims for the identity \<open>IDENTITY\<close> signed with the example key, whose address is
  1. The first is signed as \<open>sigVerify.js\<close> signs (topic 42, no data, the packed hash
  without prefix) and declares the signer as issuer. The second is the claim
  \<open>generateClaimSignature\<close> of \<open>handleKyc.js\<close> returns (topic 42, data \<open>KYC\<close>), which
  declares \<open>CLAIM_ISSUER_ADDRESS\<close>.
\<close>

definition raw_signed_claim :: claim where
  "raw_signed_claim =
     \<lparr>topic = 42, scheme = 1, issuer = computeAddress demo_signing demo_key,
      signature = serialized
        (sign demo_signing demo_key (keccak256 (be_bytes 20 (unat IDENTITY) @ be_bytes 32 42))),
      data = [], uri = []\<rparr>"

definition demo_kyc_claim :: claim where
  "demo_kyc_claim =
     \<lparr>topic = 42, scheme = 1, issuer = CLAIM_ISSUER_ADDRESS,
      signature = serialized
        (sign demo_signing demo_key
           (spec_personal_digest (spec_dataHash IDENTITY 42 (toUtf8Bytes ''KYC'')))),
      data = toUtf8Bytes ''KYC'', uri = []\<rparr>"

section \<open>Properties of the fee estimator\<close>

lemma bigint_div_nonneg: "0 \<le> a \<Longrightarrow> 0 < b \<Longrightarrow> bigint_div a b = a div b"
  by (cases "a = 0") (simp_all add: bigint_div_def)

lemma amoyMinPriorityFee_val: "amoyMinPriorityFee = 32000000000"
  by (simp add: amoyMinPriorityFee_def parseUnits_gwei_def)

lemma getGasOverrides_accepted:
  assumes "m \<noteq> 0" and "p \<noteq> 0"
  shows "getGasOverrides (Inr \<lparr>maxFeePerGas = Some m, maxPriorityFeePerGas = Some p\<rparr>) =
           Inr \<lparr>o_maxFeePerGas = (m - p) + (max p 32000000000 * 110) div 100,
                o_maxPriorityFeePerGas = (max p 32000000000 * 110) div 100,
                gasLimit = None\<rparr>"
proof (cases "p < 32000000000")
  case True
  have "bigint_div (32000000000 * 110) 100 = 32000000000 * 110 div 100"
    by (rule bigint_div_nonneg) simp_all
  with True assms show ?thesis
    by (simp add: getGasOverrides_def js_not_def amoyMinPriorityFee_val Let_def max_def)
next
  case False
  then have "0 \<le> p * 110" by simp
  then have "bigint_div (p * 110) 100 = p * 110 div 100"
    by (rule bigint_div_nonneg) simp
  with False assms show ?thesis
    by (simp add: getGasOverrides_def js_not_def amoyMinPriorityFee_val Let_def max_def)
qed

lemma getGasOverrides_below_floor:
  assumes "m \<noteq> 0" and "p \<noteq> 0" and "p < 32000000000"
  shows "getGasOverrides (Inr \<lparr>maxFeePerGas = Some m, maxPriorityFeePerGas = Some p\<rparr>) =
           Inr \<lparr>o_maxFeePerGas = (m - p) + 35200000000,
                o_maxPriorityFeePerGas = 35200000000,
                gasLimit = None\<rparr>"
proof -
  have "max p 32000000000 = 32000000000" using assms(3) by simp
  then show ?thesis
    using getGasOverrides_accepted [OF assms(1) assms(2)] by simp
qed

lemma getGasOverrides_fails_iff:
  "(\<exists>e. getGasOverrides (Inr fd) = Inl e) \<longleftrightarrow>
     (maxFeePerGas fd = None \<or> maxFeePerGas fd = Some 0 \<or>
      maxPriorityFeePerGas fd = None \<or> maxPriorityFeePerGas fd = Some 0)"
  by (auto simp: getGasOverrides_def js_not_def Let_def split: option.splits)

text \<open>
  C5. The claim: for every fee snapshot providing both \<open>maxFeePerGas\<close> and
  \<open>maxPriorityFeePerGas\<close> the quoted priority fee is
  \<open>(max(reported, 32 Gwei) * 110) / 100\<close> and the quoted max fee is
  \<open>(maxFeePerGas - maxPriorityFeePerGas)\<close> plus that; below the floor the quoted
  priority fee is 35200000000. The arithmetic is what the code computes on every
  snapshot it accepts (\<open>getGasOverrides_accepted\<close>, \<open>getGasOverrides_below_floor\<close>),
  but a reported priority fee of \<open>0n\<close>, which is below the floor, is taken by \<open>!x\<close>
  for a missing one: the snapshot below gets the error and no quote.
\<close>

theorem C5_zero_priority_fee_gets_no_quote:
  "getGasOverrides (Inr \<lparr>maxFeePerGas = Some 60000000000, maxPriorityFeePerGas = Some 0\<rparr>) =
     Inl fee_data_incomplete"
  by (simp add: getGasOverrides_def js_not_def)

text \<open>
  C6. The claim: the fee estimator fails if and only if the snapshot is missing the max
  fee or the priority fee; when both are present it never fails. The snapshot below has
  both, and the estimator fails on it: the test \<open>!feeData.maxPriorityFeePerGas\<close> is
  also true of \<open>0n\<close> (\<open>getGasOverrides_fails_iff\<close> is the exact condition).
\<close>

theorem C6_present_fees_rejected:
  "maxFeePerGas \<lparr>maxFeePerGas = Some 30000000000, maxPriorityFeePerGas = Some 0\<rparr> \<noteq> None \<and>
   maxPriorityFeePerGas \<lparr>maxFeePerGas = Some 30000000000, maxPriorityFeePerGas = Some 0\<rparr> \<noteq> None \<and>
   getGasOverrides (Inr \<lparr>maxFeePerGas = Some 30000000000, maxPriorityFeePerGas = Some 0\<rparr>) =
     Inl fee_data_incomplete"
  by (simp add: getGasOverrides_def js_not_def)

text \<open>
  C7. The claim: for every accepted snapshot the quoted \<open>maxFeePerGas\<close> is strictly
  greater than the quoted \<open>maxPriorityFeePerGas\<close>, whatever the snapshot's two fees are.
  The code adds the snapshot's difference \<open>maxFeePerGas - maxPriorityFeePerGas\<close> to the
  buffered tip, so the quote's margin is that difference: with equal fees the two quoted
  values are equal.
\<close>

theorem C7_equal_fees_equal_quote:
  "getGasOverrides (Inr \<lparr>maxFeePerGas = Some 40000000000, maxPriorityFeePerGas = Some 40000000000\<rparr>) =
     Inr \<lparr>o_maxFeePerGas = 44000000000, o_maxPriorityFeePerGas = 44000000000, gasLimit = None\<rparr> \<and>
   \<not> o_maxPriorityFeePerGas
        \<lparr>o_maxFeePerGas = 44000000000, o_maxPriorityFeePerGas = 44000000000, gasLimit = None\<rparr>
      < o_maxFeePerGas
        \<lparr>o_maxFeePerGas = 44000000000, o_maxPriorityFeePerGas = 44000000000, gasLimit = None\<rparr>"
  using getGasOverrides_accepted [of 40000000000 40000000000] by simp

text \<open>
  C7, amended: for every accepted snapshot the quoted max fee exceeds the quoted priority
  fee by exactly \<open>maxFeePerGas - maxPriorityFeePerGas\<close> of the snapshot; it is strictly
  greater exactly when the snapshot's max fee is strictly greater than its priority fee.
\<close>

theorem C7_quote_margin:
  assumes "getGasOverrides (Inr \<lparr>maxFeePerGas = Some m, maxPriorityFeePerGas = Some p\<rparr>) = Inr q"
  shows "o_maxFeePerGas q - o_maxPriorityFeePerGas q = m - p \<and>
         (o_maxPriorityFeePerGas q < o_maxFeePerGas q \<longleftrightarrow> p < m)"
proof -
  have nz: "m \<noteq> 0" "p \<noteq> 0"
    using assms by (auto simp: getGasOverrides_def js_not_def)
  from getGasOverrides_accepted [OF nz] assms
  have "q = \<lparr>o_maxFeePerGas = (m - p) + (max p 32000000000 * 110) div 100,
             o_maxPriorityFeePerGas = (max p 32000000000 * 110) div 100,
             gasLimit = None\<rparr>"
    by simp
  then show ?thesis by auto
qed

text \<open>An accepted snapshot with a max fee of 70 Gwei and a priority fee of 30 Gwei.\<close>

theorem C7_quote_margin_witness:
  "getGasOverrides (Inr \<lparr>maxFeePerGas = Some 70000000000, maxPriorityFeePerGas = Some 30000000000\<rparr>) =
     Inr \<lparr>o_maxFeePerGas = 75200000000, o_maxPriorityFeePerGas = 35200000000, gasLimit = None\<rparr> \<and>
   o_maxFeePerGas
     \<lparr>o_maxFeePerGas = 75200000000, o_maxPriorityFeePerGas = 35200000000, gasLimit = None\<rparr>
   - o_maxPriorityFeePerGas
     \<lparr>o_maxFeePerGas = 75200000000, o_maxPriorityFeePerGas = 35200000000, gasLimit = None\<rparr>
   = 70000000000 - 30000000000"
proof -
  have q: "getGasOverrides (Inr \<lparr>maxFeePerGas = Some 70000000000, maxPriorityFeePerGas = Some 30000000000\<rparr>) =
     Inr \<lparr>o_maxFeePerGas = 75200000000, o_maxPriorityFeePerGas = 35200000000, gasLimit = None\<rparr>"
    using getGasOverrides_below_floor [of 70000000000 30000000000] by simp
  from C7_quote_margin [OF q] q show ?thesis by blast
qed

section \<open>Properties of the registry client and of minting\<close>

lemma demo_chain_quote: "getGasOverrides (getFeeData (demo_chain ls rec) k) = Inr demo_quote"
  using getGasOverrides_below_floor [of 70000000000 30000000000]
  by (simp add: demo_chain_def demo_quote_def)

lemma mintTokens_cases:
  "mintTokens c to amount tokenAddress r =
     (case checkEnvVariables c of
        Inl e \<Rightarrow> (Inl e, r)
      | Inr _ \<Rightarrow>
          (case adminWallet c of
             Inl e \<Rightarrow> (Inl e, r)
           | Inr wallet \<Rightarrow>
               (case tx_outcome c (length (submitted r)) (mint_tx wallet MINT_TOKEN_ADDRESS to amount) of
                  SendRejected e \<Rightarrow>
                    (Inl e, r\<lparr>submitted := submitted r @ [mint_tx wallet MINT_TOKEN_ADDRESS to amount]\<rparr>)
                | Submitted h w \<Rightarrow>
                    (case w of
                       Inl e \<Rightarrow>
                         (Inl e, r\<lparr>submitted := submitted r @ [mint_tx wallet MINT_TOKEN_ADDRESS to amount]\<rparr>)
                     | Inr rc \<Rightarrow>
                         (Inr h, r\<lparr>submitted := submitted r @ [mint_tx wallet MINT_TOKEN_ADDRESS to amount]\<rparr>)))))"
  by (simp add: mintTokens_def bind_io_def lift_io_def return_io_def send_tx_def Let_def
      split: sum.splits send_result.splits)





text \<open>The endpoint \<open>POST /invest\<close> answers the same whatever token address the body names.\<close>

lemma post_invest_ignores_tokenAddress:
  "post_invest c to amount (Some tokenAddress) r = post_invest c to amount (Some tokenAddress') r"
  by (simp add: post_invest_def mintTokens_cases)

lemma addToIdentityRegistry_cases:
  "addToIdentityRegistry c userAddress identityAddress countryCode r =
     (case adminWallet c of
        Inl e \<Rightarrow> (Inl e, r)
      | Inr wallet \<Rightarrow>
          (case getGasOverrides (getFeeData c (fee_queries r)) of
             Inl e \<Rightarrow> (Inl e, r\<lparr>fee_queries := Suc (fee_queries r)\<rparr>)
           | Inr g \<Rightarrow>
               (case tx_outcome c (length (submitted r))
                       (registerIdentity_tx wallet userAddress identityAddress countryCode g) of
                  SendRejected e \<Rightarrow>
                    (Inl e, r\<lparr>fee_queries := Suc (fee_queries r),
                              submitted := submitted r @
                                [registerIdentity_tx wallet userAddress identityAddress countryCode g]\<rparr>)
                | Submitted h w \<Rightarrow>
                    (case w of
                       Inl e \<Rightarrow>
                         (Inl e, r\<lparr>fee_queries := Suc (fee_queries r),
                                   submitted := submitted r @
                                     [registerIdentity_tx wallet userAddress identityAddress countryCode g]\<rparr>)
                     | Inr rc \<Rightarrow>
                         (Inr True, r\<lparr>fee_queries := Suc (fee_queries r),
                                      submitted := submitted r @
                                        [registerIdentity_tx wallet userAddress identityAddress countryCode g]\<rparr>)))))"
  by (simp add: addToIdentityRegistry_def bind_io_def lift_io_def return_io_def send_tx_def
      fetchGasOverrides_def split: sum.splits send_result.splits)

lemma addToIdentityRegistry_returns_true:
  "addToIdentityRegistry c userAddress identityAddress countryCode r = (Inr v, r') \<Longrightarrow> v = True"
  by (auto simp: addToIdentityRegistry_cases split: sum.splits send_result.splits)

text \<open>
  C9. The claim: a successful \<open>register(userAddress, identityAddress, countryCode)\<close>
  returns the hash of the registration transaction, which \<open>POST /register\<close> reports as
  \<open>transactionHash\<close>. On the chain below the transaction is mined with hash
  \<open>0x5e11\<close>; \<open>addToIdentityRegistry\<close> sends it with a fresh fee quote, waits, and
  returns \<open>true\<close>, and the endpoint answers \<open>{transactionHash: true}\<close>.
\<close>

theorem C9_register_returns_true:
  "tx_outcome (demo_chain [] (Inr 0)) 0 (registerIdentity_tx demo_key USER IDENTITY 91 demo_quote) =
     Submitted ''0x5e11'' (Inr (demo_receipt [])) \<and>
   addToIdentityRegistry (demo_chain [] (Inr 0)) USER IDENTITY 91 run0 =
     (Inr True, \<lparr>fee_queries = 1,
                 submitted = [registerIdentity_tx demo_key USER IDENTITY 91 demo_quote]\<rparr>) \<and>
   fst (post_register (demo_chain [] (Inr 0)) (Some USER) (Some IDENTITY) (Some 91) run0) =
     \<lparr>status = 200, body = [(''transactionHash'', JsBool True)]\<rparr>"
proof -
  have q: "getGasOverrides (getFeeData (demo_chain [] (Inr 0)) 0) = Inr demo_quote"
    by (rule demo_chain_quote)
  have a: "addToIdentityRegistry (demo_chain [] (Inr 0)) USER IDENTITY 91 run0 =
     (Inr True, \<lparr>fee_queries = 1,
                 submitted = [registerIdentity_tx demo_key USER IDENTITY 91 demo_quote]\<rparr>)"
    using q by (simp add: addToIdentityRegistry_cases adminWallet_def run0_def)
       (simp add: demo_chain_def)
  have b: "fst (post_register (demo_chain [] (Inr 0)) (Some USER) (Some IDENTITY) (Some 91) run0) =
     \<lparr>status = 200, body = [(''transactionHash'', JsBool True)]\<rparr>"
    by (simp add: post_register_def js_not_def a)
  have c: "tx_outcome (demo_chain [] (Inr 0)) 0 (registerIdentity_tx demo_key USER IDENTITY 91 demo_quote) =
     Submitted ''0x5e11'' (Inr (demo_receipt []))"
    by (simp add: demo_chain_def)
  from a b c show ?thesis by blast
qed


section \<open>Properties of the identity provisioner\<close>

lemma address_key_Inr: "address_key a = Inr (keccak256 (abi_word (unat a)))"
  by (simp add: address_key_def abi_encode_def)

lemma scan_logs_None_iff:
  "scan_logs P ls = None \<longleftrightarrow> (\<forall>l \<in> set ls. \<not> is_WalletLinked P l)"
  by (induction ls) (auto simp: is_WalletLinked_def split: parse_result.splits)

lemma find_None_iff_no_WalletLinked:
  "find (is_WalletLinked P) ls = None \<longleftrightarrow> (\<forall>l \<in> set ls. \<not> is_WalletLinked P l)"
  by (auto simp: find_None_iff)

lemma scan_logs_skips:
  "\<forall>x \<in> set pre. \<not> is_WalletLinked P x \<Longrightarrow> scan_logs P (pre @ ls) = scan_logs P ls"
  by (induction pre) (auto simp: is_WalletLinked_def split: parse_result.splits)

lemma find_skips:
  "\<forall>x \<in> set pre. \<not> is_WalletLinked P x \<Longrightarrow>
     find (is_WalletLinked P) (pre @ ls) = find (is_WalletLinked P) ls"
  by (induction pre) auto

lemma scan_logs_first:
  assumes "\<forall>x \<in> set pre. \<not> is_WalletLinked P x"
    and "P l = Parsed d" and "name d = ''WalletLinked''"
  shows "scan_logs P (pre @ l # post) = Some (args_identity d)"
  using assms by (simp add: scan_logs_skips)

lemma find_first:
  assumes "\<forall>x \<in> set pre. \<not> is_WalletLinked P x"
    and "P l = Parsed d" and "name d = ''WalletLinked''"
  shows "find (is_WalletLinked P) (pre @ l # post) = Some l"
  using assms by (simp add: find_skips is_WalletLinked_def)

text \<open>Both functions up to the receipt of the creation transaction.\<close>

lemma createIdentity_after_receipt:
  assumes "ADMIN_PRIVATE_KEY c = Some k" and "RPC_URL c = Some url"
    and "getGasOverrides (getFeeData c (fee_queries r)) = Inr g"
    and "tx_outcome c (length (submitted r))
           (creation_tx k u salt (keccak256 (abi_word (unat OPERATOR_ADDRESS))) g) =
         Submitted h (Inr rc)"
  shows "createIdentity c u salt r =
           (case scan_logs (ID_FACTORY_ABI_parseLog c) (logs rc) of
              None \<Rightarrow> throw_io event_not_found
            | Some identityAddress \<Rightarrow>
                bind_io (configureAndTransferIdentity c identityAddress u)
                  (\<lambda>_. return_io identityAddress))
           (r\<lparr>fee_queries := Suc (fee_queries r),
              submitted := submitted r @
                [creation_tx k u salt (keccak256 (abi_word (unat OPERATOR_ADDRESS))) g]\<rparr>)"
  using assms
  by (simp add: createIdentity_def checkEnvVariables_def adminWallet_def address_key_Inr
      bind_io_def lift_io_def fetchGasOverrides_def send_tx_def)

lemma createIdentity_V6_after_receipt:
  assumes "ADMIN_PRIVATE_KEY c = Some k" and "RPC_URL c = Some url"
    and "getGasOverrides (getFeeData c (fee_queries r)) = Inr g"
    and "tx_outcome c (length (submitted r))
           (creation_tx k u salt (keccak256 (abi_word (unat OPERATOR_ADDRESS))) g) =
         Submitted h (Inr rc)"
  shows "createIdentity_V6 c u salt r =
           (case find (is_WalletLinked (IDENTITY_REGISTRY_ABI_parseLog c)) (logs rc) of
              None \<Rightarrow> throw_io event_not_found
            | Some walletLinkedLog \<Rightarrow>
                (case IDENTITY_REGISTRY_ABI_parseLog c walletLinkedLog of
                   ParseThrows \<Rightarrow> throw_io parse_threw
                 | ParseNull \<Rightarrow> throw_io null_args
                 | Parsed parsedEvent \<Rightarrow>
                     bind_io (configureAndTransferIdentity c (args_identity parsedEvent) u)
                       (\<lambda>_. return_io (args_identity parsedEvent))))
           (r\<lparr>fee_queries := Suc (fee_queries r),
              submitted := submitted r @
                [creation_tx k u salt (keccak256 (abi_word (unat OPERATOR_ADDRESS))) g]\<rparr>)"
  using assms
  by (simp add: createIdentity_V6_def checkEnvVariables_def adminWallet_def address_key_Inr
      bind_io_def lift_io_def fetchGasOverrides_def send_tx_def)

text \<open>
  C8. For every provisioning run whose creation transaction is mined with a receipt in
  which no log decodes to a \<open>WalletLinked\<close> event, \<open>createIdentity\<close> (of both files,
  each with the interface it uses) fails with the event-not-found error, and the only
  transaction it has sent is the creation transaction: no \<open>addKey\<close>. Logs before the
  first \<open>WalletLinked\<close> one, whether their parse throws, returns \<open>null\<close> or names
  another event, change nothing; the first \<open>WalletLinked\<close> log gives the identity
  address, with which the function goes on to the key configuration and which it returns.
\<close>

theorem C8_wallet_linked_event:
  assumes "ADMIN_PRIVATE_KEY c = Some k" and "RPC_URL c = Some url"
    and "getGasOverrides (getFeeData c (fee_queries r)) = Inr g"
    and "tx_outcome c (length (submitted r))
           (creation_tx k u salt (keccak256 (abi_word (unat OPERATOR_ADDRESS))) g) =
         Submitted h (Inr rc)"
    and "r1 = r\<lparr>fee_queries := Suc (fee_queries r),
                 submitted := submitted r @
                   [creation_tx k u salt (keccak256 (abi_word (unat OPERATOR_ADDRESS))) g]\<rparr>"
  shows "((\<forall>l \<in> set (logs rc). \<not> is_WalletLinked (ID_FACTORY_ABI_parseLog c) l) \<longrightarrow>
            createIdentity c u salt r = (Inl event_not_found, r1)) \<and>
         ((\<forall>l \<in> set (logs rc). \<not> is_WalletLinked (IDENTITY_REGISTRY_ABI_parseLog c) l) \<longrightarrow>
            createIdentity_V6 c u salt r = (Inl event_not_found, r1)) \<and>
         (\<forall>pre l post d.
            logs rc = pre @ l # post \<and>
            (\<forall>x \<in> set pre. \<not> is_WalletLinked (ID_FACTORY_ABI_parseLog c) x) \<and>
            ID_FACTORY_ABI_parseLog c l = Parsed d \<and> name d = ''WalletLinked'' \<longrightarrow>
            createIdentity c u salt r =
              bind_io (configureAndTransferIdentity c (args_identity d) u)
                (\<lambda>_. return_io (args_identity d)) r1) \<and>
         (\<forall>pre l post d.
            logs rc = pre @ l # post \<and>
            (\<forall>x \<in> set pre. \<not> is_WalletLinked (IDENTITY_REGISTRY_ABI_parseLog c) x) \<and>
            IDENTITY_REGISTRY_ABI_parseLog c l = Parsed d \<and> name d = ''WalletLinked'' \<longrightarrow>
            createIdentity_V6 c u salt r =
              bind_io (configureAndTransferIdentity c (args_identity d) u)
                (\<lambda>_. return_io (args_identity d)) r1)"
proof -
  note a = createIdentity_after_receipt [OF assms(1-4)]
  note b = createIdentity_V6_after_receipt [OF assms(1-4)]
  have 1: "createIdentity c u salt r = (Inl event_not_found, r1)"
    if "\<forall>l \<in> set (logs rc). \<not> is_WalletLinked (ID_FACTORY_ABI_parseLog c) l"
    using that a assms(5) scan_logs_None_iff [of "ID_FACTORY_ABI_parseLog c" "logs rc"]
    by (simp add: throw_io_def)
  have 2: "createIdentity_V6 c u salt r = (Inl event_not_found, r1)"
    if "\<forall>l \<in> set (logs rc). \<not> is_WalletLinked (IDENTITY_REGISTRY_ABI_parseLog c) l"
    using that b assms(5)
      find_None_iff_no_WalletLinked [of "IDENTITY_REGISTRY_ABI_parseLog c" "logs rc"]
    by (simp add: throw_io_def)
  have 3: "createIdentity c u salt r =
              bind_io (configureAndTransferIdentity c (args_identity d) u)
                (\<lambda>_. return_io (args_identity d)) r1"
    if "logs rc = pre @ l # post"
      and "\<forall>x \<in> set pre. \<not> is_WalletLinked (ID_FACTORY_ABI_parseLog c) x"
      and "ID_FACTORY_ABI_parseLog c l = Parsed d" and "name d = ''WalletLinked''"
    for pre l post d
    using a assms(5) that(1) scan_logs_first [OF that(2) that(3) that(4), of post]
    by simp
  have 4: "createIdentity_V6 c u salt r =
              bind_io (configureAndTransferIdentity c (args_identity d) u)
                (\<lambda>_. return_io (args_identity d)) r1"
    if "logs rc = pre @ l # post"
      and "\<forall>x \<in> set pre. \<not> is_WalletLinked (IDENTITY_REGISTRY_ABI_parseLog c) x"
      and "IDENTITY_REGISTRY_ABI_parseLog c l = Parsed d" and "name d = ''WalletLinked''"
    for pre l post d
    using b assms(5) that(1) that(3) find_first [OF that(2) that(3) that(4), of post]
    by simp
  from 1 2 3 4 show ?thesis by blast
qed


text \<open>
  Two runs on the example chain: a receipt whose three logs are not \<open>WalletLinked\<close>
  events, and a receipt with two \<open>WalletLinked\<close> logs after them.
\<close>

lemma demo_configure:
  "configureAndTransferIdentity (demo_chain ls rec) a u r =
     (Inr (), r\<lparr>fee_queries := Suc (Suc (fee_queries r)),
               submitted := submitted r @
                 [\<lparr>tx_contract = a, tx_signer = demo_key,
                   tx_call = AddKey (keccak256 (abi_word (unat u))) KEY_PURPOSE_MANAGEMENT KEY_TYPE_ECDSA,
                   tx_overrides = Some demo_quote\<rparr>,
                  \<lparr>tx_contract = a, tx_signer = demo_key,
                   tx_call = AddKey (keccak256 (abi_word (unat u))) KEY_PURPOSE_CLAIM KEY_TYPE_ECDSA,
                   tx_overrides = Some demo_quote\<rparr>]\<rparr>)"
proof -
  have k: "adminWallet (demo_chain ls rec) = Inr demo_key"
    by (simp add: adminWallet_def demo_chain_def)
  have t: "tx_outcome (demo_chain ls rec) n t = Submitted ''0x5e11'' (Inr (demo_receipt ls))" for n t
    by (simp add: demo_chain_def)
  show ?thesis
    by (simp add: configureAndTransferIdentity_def k t demo_chain_quote address_key_Inr
        bind_io_def lift_io_def return_io_def fetchGasOverrides_def send_tx_def)
qed

lemma demo_unlinked:
  "\<forall>l \<in> set demo_logs_unlinked. \<not> is_WalletLinked demo_parseLog l"
  by (simp add: demo_logs_unlinked_def demo_log_def is_WalletLinked_def demo_parseLog_def)

theorem C8_wallet_linked_event_witness:
  "createIdentity (demo_chain demo_logs_unlinked (Inr 0)) USER ''salt'' run0 =
     (Inl event_not_found,
      \<lparr>fee_queries = 1,
       submitted = [creation_tx demo_key USER ''salt''
                      (keccak256 (abi_word (unat OPERATOR_ADDRESS))) demo_quote]\<rparr>) \<and>
   createIdentity_V6 (demo_chain demo_logs_unlinked (Inr 0)) USER ''salt'' run0 =
     (Inl event_not_found,
      \<lparr>fee_queries = 1,
       submitted = [creation_tx demo_key USER ''salt''
                      (keccak256 (abi_word (unat OPERATOR_ADDRESS))) demo_quote]\<rparr>) \<and>
   fst (createIdentity (demo_chain demo_logs_linked (Inr 0)) USER ''salt'' run0) = Inr IDENTITY \<and>
   fst (createIdentity_V6 (demo_chain demo_logs_linked (Inr 0)) USER ''salt'' run0) = Inr IDENTITY \<and>
   map tx_contract
     (submitted (snd (createIdentity (demo_chain demo_logs_linked (Inr 0)) USER ''salt'' run0))) =
     [ID_FACTORY, IDENTITY, IDENTITY]"
proof -
  let ?mk = "keccak256 (abi_word (unat OPERATOR_ADDRESS))"
  let ?r1 = "\<lparr>fee_queries = 1, submitted = [creation_tx demo_key USER ''salt'' ?mk demo_quote]\<rparr>"
  have r1: "?r1 = run0\<lparr>fee_queries := Suc (fee_queries run0),
                 submitted := submitted run0 @ [creation_tx demo_key USER ''salt'' ?mk demo_quote]\<rparr>"
    by (simp add: run0_def)
  have env: "ADMIN_PRIVATE_KEY (demo_chain ls (Inr 0)) = Some demo_key"
    "RPC_URL (demo_chain ls (Inr 0)) = Some ''http://localhost:8545''" for ls
    by (simp_all add: demo_chain_def)
  have mined: "tx_outcome (demo_chain ls (Inr 0)) (length (submitted run0))
           (creation_tx demo_key USER ''salt'' ?mk demo_quote) =
         Submitted ''0x5e11'' (Inr (demo_receipt ls))" for ls
    by (simp add: demo_chain_def)
  have p: "ID_FACTORY_ABI_parseLog (demo_chain ls (Inr 0)) = demo_parseLog"
    "IDENTITY_REGISTRY_ABI_parseLog (demo_chain ls (Inr 0)) = demo_parseLog" for ls
    by (simp_all add: demo_chain_def)
  note U = C8_wallet_linked_event [OF env demo_chain_quote mined r1, of demo_logs_unlinked]
  note L = C8_wallet_linked_event [OF env demo_chain_quote mined r1, of demo_logs_linked]
  have nl: "\<forall>l \<in> set (logs (demo_receipt demo_logs_unlinked)). \<not> is_WalletLinked demo_parseLog l"
    using demo_unlinked by (simp add: demo_receipt_def)
  have u1: "createIdentity (demo_chain demo_logs_unlinked (Inr 0)) USER ''salt'' run0 =
     (Inl event_not_found, ?r1)"
    by (rule U [THEN conjunct1, unfolded p, THEN mp, OF nl])
  have u2: "createIdentity_V6 (demo_chain demo_logs_unlinked (Inr 0)) USER ''salt'' run0 =
     (Inl event_not_found, ?r1)"
    by (rule U [THEN conjunct2, THEN conjunct1, unfolded p, THEN mp, OF nl])
  let ?d = "\<lparr>name = ''WalletLinked'', args_identity = IDENTITY\<rparr>"
  have d: "demo_parseLog (demo_log IDENTITY [[1]]) = Parsed ?d"
    by (simp add: demo_parseLog_def demo_log_def)
  have split: "logs (demo_receipt demo_logs_linked) =
      demo_logs_unlinked @ demo_log IDENTITY [[1]] # [demo_log USER [[1]]]"
    by (simp add: demo_receipt_def demo_logs_linked_def)
  have pre: "logs (demo_receipt demo_logs_linked) =
      demo_logs_unlinked @ demo_log IDENTITY [[1]] # [demo_log USER [[1]]] \<and>
      (\<forall>x \<in> set demo_logs_unlinked. \<not> is_WalletLinked demo_parseLog x) \<and>
      demo_parseLog (demo_log IDENTITY [[1]]) = Parsed ?d \<and> name ?d = ''WalletLinked''"
    using split demo_unlinked d by simp
  have l1: "createIdentity (demo_chain demo_logs_linked (Inr 0)) USER ''salt'' run0 =
      bind_io (configureAndTransferIdentity (demo_chain demo_logs_linked (Inr 0)) (args_identity ?d) USER)
        (\<lambda>_. return_io (args_identity ?d)) ?r1"
    by (rule L [THEN conjunct2, THEN conjunct2, THEN conjunct1, rule_format,
        of demo_logs_unlinked "demo_log IDENTITY [[1]]" "[demo_log USER [[1]]]" ?d,
        unfolded p, OF pre])
  have l2: "createIdentity_V6 (demo_chain demo_logs_linked (Inr 0)) USER ''salt'' run0 =
      bind_io (configureAndTransferIdentity (demo_chain demo_logs_linked (Inr 0)) (args_identity ?d) USER)
        (\<lambda>_. return_io (args_identity ?d)) ?r1"
    by (rule L [THEN conjunct2, THEN conjunct2, THEN conjunct2, rule_format,
        of demo_logs_unlinked "demo_log IDENTITY [[1]]" "[demo_log USER [[1]]]" ?d,
        unfolded p, OF pre])
  have c1: "fst (createIdentity (demo_chain demo_logs_linked (Inr 0)) USER ''salt'' run0) = Inr IDENTITY"
    by (simp add: l1 bind_io_def demo_configure return_io_def)
  have c2: "fst (createIdentity_V6 (demo_chain demo_logs_linked (Inr 0)) USER ''salt'' run0) = Inr IDENTITY"
    by (simp add: l2 bind_io_def demo_configure return_io_def)
  have c3: "map tx_contract
     (submitted (snd (createIdentity (demo_chain demo_logs_linked (Inr 0)) USER ''salt'' run0))) =
     [ID_FACTORY, IDENTITY, IDENTITY]"
    by (simp add: l1 bind_io_def demo_configure return_io_def creation_tx_def)
  from u1 u2 c1 c2 c3 show ?thesis by blast
qed

section \<open>Properties of the encodings\<close>

lemma length_be_bytes: "length (be_bytes k n) = k"
  by (induction k arbitrary: n) simp_all

lemma length_gather: "length (gather a js) = length js"
  by (induction js) simp_all

lemma length_chi_25:
  assumes "length b = 25"
  shows "length (chi b) = 25"
proof -
  from assms obtain b0 b1 b2 b3 b4 b5 b6 b7 b8 b9 b10 b11 b12 b13 b14 b15 b16 b17 b18 b19
      b20 b21 b22 b23 b24
    where "b = [b0, b1, b2, b3, b4, b5, b6, b7, b8, b9, b10, b11, b12, b13, b14, b15, b16,
                b17, b18, b19, b20, b21, b22, b23, b24]"
    by (auto simp: length_Suc_conv numeral_eq_Suc)
  then show ?thesis by simp
qed

lemma length_iota: "length (iota rc a) = length a"
  by (cases a) simp_all

lemma length_round: "length (iota rc (chi (rho_pi (theta a)))) = 25"
  by (simp add: length_iota length_chi_25 rho_pi_def length_gather pi_src_def)

lemma length_keccak_rounds:
  "rcs \<noteq> [] \<Longrightarrow> length (keccak_rounds rcs a) = 25"
proof (induction rcs arbitrary: a)
  case Nil
  then show ?case by simp
next
  case (Cons rc rcs)
  show ?case
  proof (cases rcs)
    case Nil
    then show ?thesis by (simp add: length_round)
  next
    case (Cons x xs)
    with Cons.IH show ?thesis by simp
  qed
qed

lemma length_keccak_f: "length (keccak_f a) = 25"
proof -
  have "keccak_RC \<noteq> []" by (simp add: keccak_RC_def)
  then show ?thesis unfolding keccak_f_def by (rule length_keccak_rounds)
qed

lemma length_keccak_absorb: "length (keccak_absorb st m) = 25"
  by (induction st m rule: keccak_absorb.induct)
     (subst keccak_absorb.simps, simp add: absorb_block_def length_keccak_f)

lemma length_keccak256: "length (keccak256 m) = 32"
proof -
  obtain l0 l1 l2 l3 where "take 4 (keccak_absorb (replicate 25 0) m) = [l0, l1, l2, l3]"
    using length_keccak_absorb [of "replicate 25 0" m]
    by (cases "keccak_absorb (replicate 25 0) m" rule: list.exhaust)
       (auto simp: length_Suc_conv numeral_eq_Suc take_Suc_Cons)
  then show ?thesis by (simp add: keccak256_def bytes_of_lane_def)
qed


lemma abi_encode_claim:
  assumes "0 \<le> t" and "t < 2 ^ 256"
  shows "abi_encode [AbiAddress a, AbiUint256 t, AbiBytes d] = Inr (spec_abi_tuple a (nat t) d)"
  using assms by (simp add: abi_encode_def spec_abi_tuple_def abi_word_def)

lemma decimal_32: "decimal 32 = ''32''"
  by code_simp

lemma toUtf8Bytes_ascii:
  "\<forall>c \<in> set s. of_char c < (128 :: nat) \<Longrightarrow> toUtf8Bytes s = map of_char s"
  by (induction s) (simp_all add: toUtf8Bytes_def utf8_char_def)

lemma toUtf8Bytes_MessagePrefix:
  "toUtf8Bytes MessagePrefix = [0x19] @ map of_char ''Ethereum Signed Message:'' @ [0x0A]"
proof -
  have "\<forall>c \<in> set MessagePrefix. of_char c < (128 :: nat)"
    by (simp add: MessagePrefix_def)
  then have "toUtf8Bytes MessagePrefix = map of_char MessagePrefix"
    by (rule toUtf8Bytes_ascii)
  then show ?thesis by (simp add: MessagePrefix_def)
qed

lemma toUtf8Bytes_32: "toUtf8Bytes ''32'' = map of_char ''32''"
  by (rule toUtf8Bytes_ascii) simp

lemma hashMessage_32:
  assumes "length h = 32"
  shows "hashMessage h = spec_personal_digest h"
  using assms
  by (simp only: hashMessage_def spec_personal_digest_def decimal_32 toUtf8Bytes_MessagePrefix
      toUtf8Bytes_32 append_assoc)

lemma hashMessage_dataHash: "hashMessage (keccak256 m) = spec_personal_digest (keccak256 m)"
  by (rule hashMessage_32) (rule length_keccak256)

section \<open>Properties of the claim issuer\<close>

lemma issueKycClaimSignature_valid:
  assumes "ADMIN_PRIVATE_KEY c = Some k" and "0 \<le> t" and "t < 2 ^ 256"
  shows "issueKycClaimSignature S c (Some u) (Some a) claimData t =
           Inr \<lparr>i_signature =
                  sign S k (spec_personal_digest (spec_dataHash a (nat t) (toUtf8Bytes claimData))),
                i_issuerAddress = CLAIM_ISSUER_ADDRESS,
                i_dataHash = spec_dataHash a (nat t) (toUtf8Bytes claimData),
                i_topic = t\<rparr>"
  using assms
  by (simp add: issueKycClaimSignature_def abi_encode_claim hashMessage_dataHash
      spec_dataHash_def Let_def)

lemma generateClaimSignature_V6_valid:
  assumes "ADMIN_PRIVATE_KEY c = Some k" and "0 \<le> t" and "t < 2 ^ 256"
  shows "generateClaimSignature_V6 S c (Some a) t claimData =
           Inr \<lparr>topic = t, scheme = 1, issuer = computeAddress S k,
                signature = serialized
                  (sign S k (spec_personal_digest (spec_dataHash a (nat t) (toUtf8Bytes claimData)))),
                data = toUtf8Bytes claimData, uri = []\<rparr>"
  using assms
  by (simp add: generateClaimSignature_V6_def adminWallet_def abi_encode_claim signMessage_def
      hashMessage_dataHash spec_dataHash_def Let_def)

text \<open>
  C2. For every valid input (both addresses well formed, the key configured, the topic a
  \<open>uint256\<close>, the payload any string) the issuance operation of either file signs
  exactly the EIP-191 personal-message digest of \<open>dataHash\<close>, where \<open>dataHash\<close> is
  the Keccak-256 of the ABI encoding of (subject identity address, topic, payload
  bytes) in this order; \<open>handleKyc.js\<close> returns the signature and that hash,
  \<open>handleKycV6.js\<close> the serialized signature.
\<close>

theorem C2_signs_personal_digest_of_dataHash:
  assumes "ADMIN_PRIVATE_KEY c = Some k" and "0 \<le> t" and "t < 2 ^ 256"
  shows "(\<exists>res. issueKycClaimSignature S c (Some u) (Some a) claimData t = Inr res \<and>
            i_dataHash res = spec_dataHash a (nat t) (toUtf8Bytes claimData) \<and>
            i_signature res = sign S k (spec_personal_digest (i_dataHash res))) \<and>
         (\<exists>cl. generateClaimSignature_V6 S c (Some a) t claimData = Inr cl \<and>
            signature cl = serialized
              (sign S k (spec_personal_digest
                 (spec_dataHash a (nat t) (toUtf8Bytes claimData)))))"
  using issueKycClaimSignature_valid [OF assms, of S u a claimData]
    generateClaimSignature_V6_valid [OF assms, of S a claimData]
  by simp


text \<open>An issuance on the example chain, under the stand-in signing scheme.\<close>

lemma demo_signing_ok: "signing_ok demo_signing"
  by (auto simp: signing_ok_def demo_signing_def wf_sig_def demo_r_def demo_s_def)

lemma be_nat_zeros: "foldl (\<lambda>n x. 256 * n + unat x) 0 (replicate m (0 :: byte)) = 0"
  by (induction m) simp_all

lemma demo_computeAddress: "computeAddress demo_signing demo_key = 1"
  by (simp add: demo_signing_def demo_r_def demo_key_def be_nat_def be_nat_zeros)

theorem C2_signs_personal_digest_of_dataHash_witness:
  "(\<exists>res. issueKycClaimSignature demo_signing (demo_chain [] (Inr 0)) (Some USER) (Some IDENTITY)
             ''KYC'' 42 = Inr res \<and>
          i_dataHash res = spec_dataHash IDENTITY (nat 42) (toUtf8Bytes ''KYC'') \<and>
          i_signature res = sign demo_signing demo_key (spec_personal_digest (i_dataHash res))) \<and>
   (\<exists>cl. generateClaimSignature_V6 demo_signing (demo_chain [] (Inr 0)) (Some IDENTITY) 42 ''KYC''
            = Inr cl \<and>
          signature cl = serialized
            (sign demo_signing demo_key (spec_personal_digest
               (spec_dataHash IDENTITY (nat 42) (toUtf8Bytes ''KYC'')))))"
proof -
  have k: "ADMIN_PRIVATE_KEY (demo_chain [] (Inr 0)) = Some demo_key"
    by (simp add: demo_chain_def)
  have lo: "(0::int) \<le> 42" and hi: "(42::int) < 2 ^ 256" by simp_all
  show ?thesis
    by (rule C2_signs_personal_digest_of_dataHash [OF k lo hi])
qed

lemma Signature_from_bytes_serialized:
  assumes "wf_sig sg"
  shows "Signature_from_bytes (serialized sg) = Inr (sg\<lparr>sig_v := sig_v sg\<rparr>)"
proof -
  from assms have r: "length (sig_r sg) = 32" and s: "length (sig_s sg) = 32"
    and h: "hd (sig_s sg) < 0x80" and v: "sig_v sg = 27 \<or> sig_v sg = 28"
    by (simp_all add: wf_sig_def)
  have len: "length (serialized sg) = 65" by (simp add: serialized_def r s)
  have t1: "take 32 (serialized sg) = sig_r sg" by (simp add: serialized_def r)
  have t2: "take 32 (drop 32 (serialized sg)) = sig_s sg" by (simp add: serialized_def r s)
  have l: "serialized sg ! 64 = of_nat (sig_v sg)"
    by (simp add: serialized_def nth_append r s)
  from v have "unat (of_nat (sig_v sg) :: byte) = sig_v sg" by auto
  with v len t1 t2 l h show ?thesis
    by (auto simp: Signature_from_bytes_def Let_def not_le)
qed


lemma recover_signed:
  "signing_ok S \<Longrightarrow> recoverAddress S digest (sign S k digest) = computeAddress S k"
  by (simp add: signing_ok_def)

lemma wf_signed: "signing_ok S \<Longrightarrow> wf_sig (sign S k digest)"
  by (simp add: signing_ok_def)

lemma spec_verifyLocally_serialized:
  assumes "signing_ok S"
  shows "spec_verifyLocally S
           \<lparr>topic = t, scheme = sc, issuer = i,
            signature = serialized (sign S k (spec_personal_digest (spec_dataHash a (nat t) d))),
            data = d, uri = ur\<rparr> a
         \<longleftrightarrow> computeAddress S k = i"
  using Signature_from_bytes_serialized [OF wf_signed [OF assms]] recover_signed [OF assms]
  by (simp add: spec_verifyLocally_def)

lemma generateClaimSignature_valid:
  assumes "signing_ok S" and "ADMIN_PRIVATE_KEY c = Some k" and "0 \<le> t" and "t < 2 ^ 256"
  shows "generateClaimSignature S c (Some u) (Some a) t =
           Inr \<lparr>topic = t, scheme = 1, issuer = CLAIM_ISSUER_ADDRESS,
                signature = serialized
                  (sign S k (spec_personal_digest (spec_dataHash a (nat t) (toUtf8Bytes ''KYC'')))),
                data = toUtf8Bytes ''KYC'', uri = []\<rparr>"
  using issueKycClaimSignature_valid [OF assms(2-4), of S u a "''KYC''"] wf_signed [OF assms(1)]
  by (simp add: generateClaimSignature_def Signature_from_def)

text \<open>
  C1. The claim: for every valid input the issued claim round-trips, that is, the
  address recovered from its signature and the recomputed hash is its declared issuer.
  \<open>issueKycClaimSignature\<close> signs with the configured key and declares the constant
  \<open>CLAIM_ISSUER_ADDRESS\<close>: with a key whose address is another one (here the key
  \<open>0x00..01\<close> under the stand-in scheme, address 1) the address recovered from the
  issued signature and the digest of the issued hash is not the declared issuer.
\<close>

theorem C1_declared_issuer_is_not_the_signer:
  "issueKycClaimSignature demo_signing (demo_chain [] (Inr 0)) (Some USER) (Some IDENTITY)
     ''KYC'' 42 =
     Inr \<lparr>i_signature =
            sign demo_signing demo_key
              (spec_personal_digest (spec_dataHash IDENTITY 42 (toUtf8Bytes ''KYC''))),
          i_issuerAddress = CLAIM_ISSUER_ADDRESS,
          i_dataHash = spec_dataHash IDENTITY 42 (toUtf8Bytes ''KYC''),
          i_topic = 42\<rparr> \<and>
   recoverAddress demo_signing
     (hashMessage (spec_dataHash IDENTITY 42 (toUtf8Bytes ''KYC'')))
     (sign demo_signing demo_key
        (spec_personal_digest (spec_dataHash IDENTITY 42 (toUtf8Bytes ''KYC'')))) = 1 \<and>
   CLAIM_ISSUER_ADDRESS \<noteq> 1"
proof -
  have k: "ADMIN_PRIVATE_KEY (demo_chain [] (Inr 0)) = Some demo_key"
    by (simp add: demo_chain_def)
  have ne: "CLAIM_ISSUER_ADDRESS \<noteq> 1"
    by (simp add: CLAIM_ISSUER_ADDRESS_def)
  have i: "issueKycClaimSignature demo_signing (demo_chain [] (Inr 0)) (Some USER) (Some IDENTITY)
     ''KYC'' 42 =
     Inr \<lparr>i_signature =
            sign demo_signing demo_key
              (spec_personal_digest (spec_dataHash IDENTITY 42 (toUtf8Bytes ''KYC''))),
          i_issuerAddress = CLAIM_ISSUER_ADDRESS,
          i_dataHash = spec_dataHash IDENTITY 42 (toUtf8Bytes ''KYC''),
          i_topic = 42\<rparr>"
    using issueKycClaimSignature_valid [OF k, of 42 demo_signing USER IDENTITY "''KYC''"]
    by simp
  have r: "recoverAddress demo_signing
     (hashMessage (spec_dataHash IDENTITY 42 (toUtf8Bytes ''KYC'')))
     (sign demo_signing demo_key
        (spec_personal_digest (spec_dataHash IDENTITY 42 (toUtf8Bytes ''KYC'')))) = 1"
    by (simp add: spec_dataHash_def hashMessage_dataHash recover_signed [OF demo_signing_ok]
        demo_computeAddress)
  from i r ne show ?thesis by blast
qed

text \<open>
  C1, amended: for every valid input (addresses well formed, key \<open>k\<close> configured, topic
  a \<open>uint256\<close>) and every signing scheme in which recovery from the signed digest gives
  the signer's address, the signature of the issued claim recovers, from the EIP-191
  digest of the hash recomputed as Keccak-256 of the ABI encoding of (subject, topic,
  payload), to the address of \<open>k\<close>. In \<open>handleKycV6.js\<close> that address is the claim's
  declared issuer, so the claim verifies. In \<open>handleKyc.js\<close> the declared issuer is the
  constant \<open>CLAIM_ISSUER_ADDRESS\<close>, which the recovered address equals exactly when it
  is the address of \<open>k\<close>.
\<close>

theorem C1_signature_recovers_signer:
  assumes "signing_ok S" and "ADMIN_PRIVATE_KEY c = Some k" and "0 \<le> t" and "t < 2 ^ 256"
  shows "(\<exists>res. issueKycClaimSignature S c (Some u) (Some a) claimData t = Inr res \<and>
            recoverAddress S
              (spec_personal_digest (spec_dataHash a (nat t) (toUtf8Bytes claimData)))
              (i_signature res) = computeAddress S k \<and>
            i_issuerAddress res = CLAIM_ISSUER_ADDRESS) \<and>
         (\<exists>cl. generateClaimSignature_V6 S c (Some a) t claimData = Inr cl \<and>
            issuer cl = computeAddress S k \<and> spec_verifyLocally S cl a) \<and>
         (\<exists>cl. generateClaimSignature S c (Some u) (Some a) t = Inr cl \<and>
            issuer cl = CLAIM_ISSUER_ADDRESS \<and>
            (spec_verifyLocally S cl a \<longleftrightarrow> computeAddress S k = CLAIM_ISSUER_ADDRESS))"
  using issueKycClaimSignature_valid [OF assms(2-4), of S u a claimData]
    generateClaimSignature_V6_valid [OF assms(2-4), of S a claimData]
    generateClaimSignature_valid [OF assms, of u a]
    spec_verifyLocally_serialized [OF assms(1)]
    recover_signed [OF assms(1)]
  by simp

text \<open>The same issuance as an instance of the amended claim.\<close>

theorem C1_signature_recovers_signer_witness:
  "(\<exists>res. issueKycClaimSignature demo_signing (demo_chain [] (Inr 0)) (Some USER)
            (Some IDENTITY) ''KYC'' 42 = Inr res \<and>
          recoverAddress demo_signing
            (spec_personal_digest (spec_dataHash IDENTITY (nat 42) (toUtf8Bytes ''KYC'')))
            (i_signature res) = computeAddress demo_signing demo_key \<and>
          i_issuerAddress res = CLAIM_ISSUER_ADDRESS) \<and>
   (\<exists>cl. generateClaimSignature_V6 demo_signing (demo_chain [] (Inr 0)) (Some IDENTITY) 42
            ''KYC'' = Inr cl \<and>
          issuer cl = computeAddress demo_signing demo_key \<and>
          spec_verifyLocally demo_signing cl IDENTITY) \<and>
   (\<exists>cl. generateClaimSignature demo_signing (demo_chain [] (Inr 0)) (Some USER)
            (Some IDENTITY) 42 = Inr cl \<and>
          issuer cl = CLAIM_ISSUER_ADDRESS \<and>
          (spec_verifyLocally demo_signing cl IDENTITY \<longleftrightarrow>
             computeAddress demo_signing demo_key = CLAIM_ISSUER_ADDRESS))"
proof -
  have k: "ADMIN_PRIVATE_KEY (demo_chain [] (Inr 0)) = Some demo_key"
    by (simp add: demo_chain_def)
  have lo: "(0::int) \<le> 42" and hi: "(42::int) < 2 ^ 256" by simp_all
  show ?thesis
    by (rule C1_signature_recovers_signer [OF demo_signing_ok k lo hi])
qed


section \<open>Properties of the claim submitter\<close>

lemma preflight_mismatch:
  assumes "preflight_dataHash identityAddress (topic cl) (data cl) = Inr h"
    and "getRecoveredAddress c identityAddress (signature cl) h = Inr recovered"
    and "recovered \<noteq> issuer cl"
  shows "preflight c identityAddress cl = Inl signature_verification_failed"
  using assms by (simp add: preflight_def)

lemma preflight_dataHash_in_range:
  assumes "0 \<le> t" and "t < 2 ^ 256"
  shows "preflight_dataHash a t d =
           Inr (keccak256 (be_bytes 20 (unat a) @ be_bytes 32 (nat t) @ d))"
  using assms by (simp add: preflight_dataHash_def solidityPackedKeccak256_def solidityPacked_def)

lemma submitClaim_V6_preflight_fails:
  assumes "preflight c identityAddress cl = Inl e"
  shows "submitClaim_V6 c identityAddress userWallet cl r =
           (case checkEnvVariables c of Inl e' \<Rightarrow> (Inl e', r) | Inr _ \<Rightarrow> (Inr (), r))"
  using assms
  by (simp add: submitClaim_V6_def bind_io_def lift_io_def return_io_def split: sum.splits)

text \<open>
  Where the pre-flight check of \<open>handleKycV6.js\<close> finds a mismatch, nothing is sent,
  and the error is logged, not raised: the call returns normally.
\<close>

lemma submitClaim_V6_mismatch_sends_nothing:
  assumes "preflight_dataHash identityAddress (topic cl) (data cl) = Inr h"
    and "getRecoveredAddress c identityAddress (signature cl) h = Inr recovered"
    and "recovered \<noteq> issuer cl"
  shows "snd (submitClaim_V6 c identityAddress userWallet cl r) = r \<and>
         (checkEnvVariables c = Inr () \<longrightarrow>
            submitClaim_V6 c identityAddress userWallet cl r = (Inr (), r))"
  using submitClaim_V6_preflight_fails [OF preflight_mismatch [OF assms], of userWallet r]
  by (simp split: sum.splits)

lemma submitClaim_V6_swallows_mismatch:
  "preflight (demo_chain [] (Inr 0)) IDENTITY demo_claim = Inl signature_verification_failed \<and>
   submitClaim_V6 (demo_chain [] (Inr 0)) IDENTITY demo_key demo_claim run0 = (Inr (), run0)"
proof -
  have h: "preflight_dataHash IDENTITY (topic demo_claim) (data demo_claim) =
             Inr (keccak256 (be_bytes 20 (unat IDENTITY) @ be_bytes 32 (nat 42) @ []))"
    by (simp add: demo_claim_def preflight_dataHash_in_range)
  have g: "getRecoveredAddress (demo_chain [] (Inr 0)) IDENTITY (signature demo_claim)
             (keccak256 (be_bytes 20 (unat IDENTITY) @ be_bytes 32 (nat 42) @ [])) = Inr 0"
    by (simp add: demo_chain_def)
  have ne: "0 \<noteq> issuer demo_claim"
    by (simp add: demo_claim_def OPERATOR_ADDRESS_def)
  have p: "preflight (demo_chain [] (Inr 0)) IDENTITY demo_claim = Inl signature_verification_failed"
    by (rule preflight_mismatch [OF h g ne])
  have e: "checkEnvVariables (demo_chain [] (Inr 0)) = Inr ()"
    by (simp add: checkEnvVariables_def demo_chain_def)
  from submitClaim_V6_preflight_fails [OF p, of demo_key run0] e p show ?thesis by simp
qed

section \<open>The two hashes of a claim\<close>

lemma be_bytes_numeral:
  "be_bytes (numeral k) n = be_bytes (pred_numeral k) (n div 256) @ [of_nat (n mod 256)]"
proof -
  have "numeral k = Suc (pred_numeral k)" by (rule numeral_eq_Suc)
  then show ?thesis by (simp only: be_bytes.simps)
qed

lemma replicate_numeral: "replicate (numeral k) x = x # replicate (pred_numeral k) x"
proof -
  have "numeral k = Suc (pred_numeral k)" by (rule numeral_eq_Suc)
  then show ?thesis by (simp only: replicate.simps)
qed

lemmas keccak_eval = keccak256_def keccak_absorb.simps absorb_block_def keccak_pad_last_def
  bytes_of_lane_def keccak_f_def rho_pi_def theta_def pi_src_def keccak_rot_def keccak_RC_def
  rotl64_def replicate_numeral

text \<open>The model of Keccak-256 on the empty message: the well-known hash \<open>c5d2..a470\<close>.\<close>

lemma keccak256_empty:
  "keccak256 [] =
     [0xc5, 0xd2, 0x46, 0x01, 0x86, 0xf7, 0x23, 0x3c, 0x92, 0x7e, 0x7d, 0xb2,
      0xdc, 0xc7, 0x03, 0xc0, 0xe5, 0x00, 0xb6, 0x53, 0xca, 0x82, 0x27, 0x3b,
      0x7b, 0xfa, 0xd8, 0x04, 0x5d, 0x85, 0xa4, 0x70]"
  by (simp add: keccak_eval)

text \<open>
  The encodings never coincide: the ABI encoding of (address, uint256, bytes) is at
  least 128 bytes longer than the payload, the packed one exactly 52.
\<close>

lemma encodings_differ:
  assumes "abi_encode [AbiAddress a, AbiUint256 t, AbiBytes d] = Inr x"
    and "solidityPacked [AbiAddress a, AbiUint256 t, AbiBytes d] = Inr y"
  shows "length y = 52 + length d \<and> 128 + length d \<le> length x \<and> x \<noteq> y"
proof -
  from assms(1) have x: "x = spec_abi_tuple a (nat t) d"
    by (auto simp: abi_encode_def spec_abi_tuple_def abi_word_def split: if_splits)
  from assms(2) have y: "y = be_bytes 20 (unat a) @ be_bytes 32 (nat t) @ d"
    by (auto simp: solidityPacked_def split: if_splits)
  have ly: "length y = 52 + length d" by (simp add: y length_be_bytes)
  have lx: "128 + length d \<le> length x" by (simp add: x spec_abi_tuple_def length_be_bytes)
  from ly lx have "length x \<noteq> length y" by simp
  then have "x \<noteq> y" by auto
  with ly lx show ?thesis by simp
qed

lemma encoded_example:
  "abi_encode [AbiAddress IDENTITY, AbiUint256 42, AbiBytes []] =
     Inr [0x00, 0x00, 0x00, 0x00, 0x00, 0x00, 0x00, 0x00, 0x00, 0x00, 0x00, 0x00,
          0xde, 0x9f, 0xda, 0x56, 0xd1, 0x52, 0xab, 0xe1, 0x1a, 0xa6, 0x4a, 0xeb,
          0x5e, 0xab, 0xc1, 0xea, 0x80, 0x49, 0xa2, 0xeb, 0x00, 0x00, 0x00, 0x00,
          0x00, 0x00, 0x00, 0x00, 0x00, 0x00, 0x00, 0x00, 0x00, 0x00, 0x00, 0x00,
          0x00, 0x00, 0x00, 0x00, 0x00, 0x00, 0x00, 0x00, 0x00, 0x00, 0x00, 0x00,
          0x00, 0x00, 0x00, 0x2a, 0x00, 0x00, 0x00, 0x00, 0x00, 0x00, 0x00, 0x00,
          0x00, 0x00, 0x00, 0x00, 0x00, 0x00, 0x00, 0x00, 0x00, 0x00, 0x00, 0x00,
          0x00, 0x00, 0x00, 0x00, 0x00, 0x00, 0x00, 0x00, 0x00, 0x00, 0x00, 0x60,
          0x00, 0x00, 0x00, 0x00, 0x00, 0x00, 0x00, 0x00, 0x00, 0x00, 0x00, 0x00,
          0x00, 0x00, 0x00, 0x00, 0x00, 0x00, 0x00, 0x00, 0x00, 0x00, 0x00, 0x00,
          0x00, 0x00, 0x00, 0x00, 0x00, 0x00, 0x00, 0x00]"
  by (simp add: abi_encode_def abi_word_def IDENTITY_def be_bytes_numeral)

lemma packed_example:
  "solidityPacked [AbiAddress IDENTITY, AbiUint256 42, AbiBytes []] =
     Inr [0xde, 0x9f, 0xda, 0x56, 0xd1, 0x52, 0xab, 0xe1, 0x1a, 0xa6, 0x4a, 0xeb,
          0x5e, 0xab, 0xc1, 0xea, 0x80, 0x49, 0xa2, 0xeb, 0x00, 0x00, 0x00, 0x00,
          0x00, 0x00, 0x00, 0x00, 0x00, 0x00, 0x00, 0x00, 0x00, 0x00, 0x00, 0x00,
          0x00, 0x00, 0x00, 0x00, 0x00, 0x00, 0x00, 0x00, 0x00, 0x00, 0x00, 0x00,
          0x00, 0x00, 0x00, 0x2a]"
  by (simp add: solidityPacked_def IDENTITY_def be_bytes_numeral)

lemma keccak256_encoded_example:
  "keccak256 [0x00, 0x00, 0x00, 0x00, 0x00, 0x00, 0x00, 0x00, 0x00, 0x00, 0x00, 0x00,
          0xde, 0x9f, 0xda, 0x56, 0xd1, 0x52, 0xab, 0xe1, 0x1a, 0xa6, 0x4a, 0xeb,
          0x5e, 0xab, 0xc1, 0xea, 0x80, 0x49, 0xa2, 0xeb, 0x00, 0x00, 0x00, 0x00,
          0x00, 0x00, 0x00, 0x00, 0x00, 0x00, 0x00, 0x00, 0x00, 0x00, 0x00, 0x00,
          0x00, 0x00, 0x00, 0x00, 0x00, 0x00, 0x00, 0x00, 0x00, 0x00, 0x00, 0x00,
          0x00, 0x00, 0x00, 0x2a, 0x00, 0x00, 0x00, 0x00, 0x00, 0x00, 0x00, 0x00,
          0x00, 0x00, 0x00, 0x00, 0x00, 0x00, 0x00, 0x00, 0x00, 0x00, 0x00, 0x00,
          0x00, 0x00, 0x00, 0x00, 0x00, 0x00, 0x00, 0x00, 0x00, 0x00, 0x00, 0x60,
          0x00, 0x00, 0x00, 0x00, 0x00, 0x00, 0x00, 0x00, 0x00, 0x00, 0x00, 0x00,
          0x00, 0x00, 0x00, 0x00, 0x00, 0x00, 0x00, 0x00, 0x00, 0x00, 0x00, 0x00,
          0x00, 0x00, 0x00, 0x00, 0x00, 0x00, 0x00, 0x00] =
     [0xc1, 0xd8, 0x30, 0x75, 0x73, 0x75, 0x11, 0x32, 0x12, 0x88, 0x3e, 0xb9,
          0x21, 0xc4, 0x26, 0x58, 0x82, 0x41, 0x5b, 0xf2, 0x9a, 0x9d, 0x0a, 0x21,
          0x35, 0xc4, 0xaa, 0xad, 0xc1, 0x1b, 0x47, 0xf3]"
  by (simp add: keccak_eval)

lemma keccak256_packed_example:
  "keccak256 [0xde, 0x9f, 0xda, 0x56, 0xd1, 0x52, 0xab, 0xe1, 0x1a, 0xa6, 0x4a, 0xeb,
          0x5e, 0xab, 0xc1, 0xea, 0x80, 0x49, 0xa2, 0xeb, 0x00, 0x00, 0x00, 0x00,
          0x00, 0x00, 0x00, 0x00, 0x00, 0x00, 0x00, 0x00, 0x00, 0x00, 0x00, 0x00,
          0x00, 0x00, 0x00, 0x00, 0x00, 0x00, 0x00, 0x00, 0x00, 0x00, 0x00, 0x00,
          0x00, 0x00, 0x00, 0x2a] =
     [0x46, 0x1b, 0x2b, 0x30, 0xec, 0x09, 0xbd, 0xa2, 0xe0, 0x82, 0x37, 0x14,
          0x0d, 0xcb, 0x49, 0x7b, 0x19, 0x63, 0xaa, 0x3a, 0x4c, 0x8a, 0x29, 0xb6,
          0x35, 0x6d, 0x4b, 0xa7, 0x8f, 0x3f, 0xe4, 0x58]"
  by (simp add: keccak_eval)

text \<open>
  C3. The claim: the hash recomputed by the submitter's pre-flight check equals the hash
  the issuer computed for the same inputs. For the identity \<open>0xDe9F..A2eb\<close>, topic 42
  and an empty payload (the sample call of \<open>handleKycV6.js\<close>) the issuer hashes the
  128 bytes of the ABI encoding and the pre-flight check the 52 bytes of the packed
  encoding (\<open>solidityPackedKeccak256\<close>): the two hashes are the ones below. The code's
  own comment on the second is "Recreate the exact same hash that was signed".
\<close>

theorem C3_preflight_hash_is_not_the_issuer_hash:
  "map_sum id i_dataHash
     (issueKycClaimSignature S (demo_chain [] (Inr 0)) (Some USER) (Some IDENTITY) [] 42) =
     Inr [0xc1, 0xd8, 0x30, 0x75, 0x73, 0x75, 0x11, 0x32, 0x12, 0x88, 0x3e, 0xb9,
          0x21, 0xc4, 0x26, 0x58, 0x82, 0x41, 0x5b, 0xf2, 0x9a, 0x9d, 0x0a, 0x21,
          0x35, 0xc4, 0xaa, 0xad, 0xc1, 0x1b, 0x47, 0xf3] \<and>
   preflight_dataHash IDENTITY 42 (toUtf8Bytes []) =
     Inr [0x46, 0x1b, 0x2b, 0x30, 0xec, 0x09, 0xbd, 0xa2, 0xe0, 0x82, 0x37, 0x14,
          0x0d, 0xcb, 0x49, 0x7b, 0x19, 0x63, 0xaa, 0x3a, 0x4c, 0x8a, 0x29, 0xb6,
          0x35, 0x6d, 0x4b, 0xa7, 0x8f, 0x3f, 0xe4, 0x58]"
proof -
  have k: "ADMIN_PRIVATE_KEY (demo_chain [] (Inr 0)) = Some demo_key"
    by (simp add: demo_chain_def)
  have u: "toUtf8Bytes [] = []" by (simp add: toUtf8Bytes_def)
  have a: "map_sum id i_dataHash
     (issueKycClaimSignature S (demo_chain [] (Inr 0)) (Some USER) (Some IDENTITY) [] 42) =
     Inr (keccak256 [0x00, 0x00, 0x00, 0x00, 0x00, 0x00, 0x00, 0x00, 0x00, 0x00, 0x00, 0x00,
          0xde, 0x9f, 0xda, 0x56, 0xd1, 0x52, 0xab, 0xe1, 0x1a, 0xa6, 0x4a, 0xeb,
          0x5e, 0xab, 0xc1, 0xea, 0x80, 0x49, 0xa2, 0xeb, 0x00, 0x00, 0x00, 0x00,
          0x00, 0x00, 0x00, 0x00, 0x00, 0x00, 0x00, 0x00, 0x00, 0x00, 0x00, 0x00,
          0x00, 0x00, 0x00, 0x00, 0x00, 0x00, 0x00, 0x00, 0x00, 0x00, 0x00, 0x00,
          0x00, 0x00, 0x00, 0x2a, 0x00, 0x00, 0x00, 0x00, 0x00, 0x00, 0x00, 0x00,
          0x00, 0x00, 0x00, 0x00, 0x00, 0x00, 0x00, 0x00, 0x00, 0x00, 0x00, 0x00,
          0x00, 0x00, 0x00, 0x00, 0x00, 0x00, 0x00, 0x00, 0x00, 0x00, 0x00, 0x60,
          0x00, 0x00, 0x00, 0x00, 0x00, 0x00, 0x00, 0x00, 0x00, 0x00, 0x00, 0x00,
          0x00, 0x00, 0x00, 0x00, 0x00, 0x00, 0x00, 0x00, 0x00, 0x00, 0x00, 0x00,
          0x00, 0x00, 0x00, 0x00, 0x00, 0x00, 0x00, 0x00])"
    by (simp add: issueKycClaimSignature_def k u encoded_example Let_def)
  have b: "preflight_dataHash IDENTITY 42 (toUtf8Bytes []) =
     Inr (keccak256 [0xde, 0x9f, 0xda, 0x56, 0xd1, 0x52, 0xab, 0xe1, 0x1a, 0xa6, 0x4a, 0xeb,
          0x5e, 0xab, 0xc1, 0xea, 0x80, 0x49, 0xa2, 0xeb, 0x00, 0x00, 0x00, 0x00,
          0x00, 0x00, 0x00, 0x00, 0x00, 0x00, 0x00, 0x00, 0x00, 0x00, 0x00, 0x00,
          0x00, 0x00, 0x00, 0x00, 0x00, 0x00, 0x00, 0x00, 0x00, 0x00, 0x00, 0x00,
          0x00, 0x00, 0x00, 0x2a])"
    by (simp add: preflight_dataHash_def solidityPackedKeccak256_def u packed_example)
  from a b show ?thesis
    by (simp only: keccak256_encoded_example keccak256_packed_example)
qed

section \<open>Claims that do not verify, submitted\<close>

lemma keccak256_personal_example:
  "keccak256 [0x19, 0x45, 0x74, 0x68, 0x65, 0x72, 0x65, 0x75, 0x6d, 0x20, 0x53, 0x69,
          0x67, 0x6e, 0x65, 0x64, 0x20, 0x4d, 0x65, 0x73, 0x73, 0x61, 0x67, 0x65,
          0x3a, 0x0a, 0x33, 0x32, 0xc1, 0xd8, 0x30, 0x75, 0x73, 0x75, 0x11, 0x32,
          0x12, 0x88, 0x3e, 0xb9, 0x21, 0xc4, 0x26, 0x58, 0x82, 0x41, 0x5b, 0xf2,
          0x9a, 0x9d, 0x0a, 0x21, 0x35, 0xc4, 0xaa, 0xad, 0xc1, 0x1b, 0x47, 0xf3] =
     [0xea, 0x7c, 0xa3, 0x76, 0xc4, 0x66, 0x21, 0xaa, 0xcd, 0x30, 0x94, 0xf1,
          0x35, 0x0b, 0x9e, 0x2c, 0x4c, 0x19, 0xef, 0xdc, 0x81, 0x88, 0xa0, 0x6e,
          0x60, 0xa9, 0xb0, 0xd2, 0x42, 0x64, 0xac, 0x3d]"
  by (simp add: keccak_eval)

lemma personal_digest_example:
  "spec_personal_digest (spec_dataHash IDENTITY 42 []) =
     [0xea, 0x7c, 0xa3, 0x76, 0xc4, 0x66, 0x21, 0xaa, 0xcd, 0x30, 0x94, 0xf1,
          0x35, 0x0b, 0x9e, 0x2c, 0x4c, 0x19, 0xef, 0xdc, 0x81, 0x88, 0xa0, 0x6e,
          0x60, 0xa9, 0xb0, 0xd2, 0x42, 0x64, 0xac, 0x3d]"
proof -
  have "abi_encode [AbiAddress IDENTITY, AbiUint256 42, AbiBytes []] =
          Inr (spec_abi_tuple IDENTITY (nat 42) [])"
    by (rule abi_encode_claim) simp_all
  with encoded_example have "spec_abi_tuple IDENTITY 42 [] = [0x00, 0x00, 0x00, 0x00, 0x00, 0x00, 0x00, 0x00, 0x00, 0x00, 0x00, 0x00,
          0xde, 0x9f, 0xda, 0x56, 0xd1, 0x52, 0xab, 0xe1, 0x1a, 0xa6, 0x4a, 0xeb,
          0x5e, 0xab, 0xc1, 0xea, 0x80, 0x49, 0xa2, 0xeb, 0x00, 0x00, 0x00, 0x00,
          0x00, 0x00, 0x00, 0x00, 0x00, 0x00, 0x00, 0x00, 0x00, 0x00, 0x00, 0x00,
          0x00, 0x00, 0x00, 0x00, 0x00, 0x00, 0x00, 0x00, 0x00, 0x00, 0x00, 0x00,
          0x00, 0x00, 0x00, 0x2a, 0x00, 0x00, 0x00, 0x00, 0x00, 0x00, 0x00, 0x00,
          0x00, 0x00, 0x00, 0x00, 0x00, 0x00, 0x00, 0x00, 0x00, 0x00, 0x00, 0x00,
          0x00, 0x00, 0x00, 0x00, 0x00, 0x00, 0x00, 0x00, 0x00, 0x00, 0x00, 0x60,
          0x00, 0x00, 0x00, 0x00, 0x00, 0x00, 0x00, 0x00, 0x00, 0x00, 0x00, 0x00,
          0x00, 0x00, 0x00, 0x00, 0x00, 0x00, 0x00, 0x00, 0x00, 0x00, 0x00, 0x00,
          0x00, 0x00, 0x00, 0x00, 0x00, 0x00, 0x00, 0x00]"
    by simp
  then have "spec_dataHash IDENTITY 42 [] = [0xc1, 0xd8, 0x30, 0x75, 0x73, 0x75, 0x11, 0x32, 0x12, 0x88, 0x3e, 0xb9,
          0x21, 0xc4, 0x26, 0x58, 0x82, 0x41, 0x5b, 0xf2, 0x9a, 0x9d, 0x0a, 0x21,
          0x35, 0xc4, 0xaa, 0xad, 0xc1, 0x1b, 0x47, 0xf3]"
    by (simp only: spec_dataHash_def keccak256_encoded_example)
  then have "spec_personal_digest (spec_dataHash IDENTITY 42 []) = keccak256 [0x19, 0x45, 0x74, 0x68, 0x65, 0x72, 0x65, 0x75, 0x6d, 0x20, 0x53, 0x69,
          0x67, 0x6e, 0x65, 0x64, 0x20, 0x4d, 0x65, 0x73, 0x73, 0x61, 0x67, 0x65,
          0x3a, 0x0a, 0x33, 0x32, 0xc1, 0xd8, 0x30, 0x75, 0x73, 0x75, 0x11, 0x32,
          0x12, 0x88, 0x3e, 0xb9, 0x21, 0xc4, 0x26, 0x58, 0x82, 0x41, 0x5b, 0xf2,
          0x9a, 0x9d, 0x0a, 0x21, 0x35, 0xc4, 0xaa, 0xad, 0xc1, 0x1b, 0x47, 0xf3]"
    by (simp add: spec_personal_digest_def)
  then show ?thesis by (simp only: keccak256_personal_example)
qed

lemma packed_hash_example:
  "keccak256 (be_bytes 20 (unat IDENTITY) @ be_bytes 32 42) =
     [0x46, 0x1b, 0x2b, 0x30, 0xec, 0x09, 0xbd, 0xa2, 0xe0, 0x82, 0x37, 0x14,
          0x0d, 0xcb, 0x49, 0x7b, 0x19, 0x63, 0xaa, 0x3a, 0x4c, 0x8a, 0x29, 0xb6,
          0x35, 0x6d, 0x4b, 0xa7, 0x8f, 0x3f, 0xe4, 0x58]"
proof -
  have "be_bytes 20 (unat IDENTITY) @ be_bytes 32 42 = [0xde, 0x9f, 0xda, 0x56, 0xd1, 0x52, 0xab, 0xe1, 0x1a, 0xa6, 0x4a, 0xeb,
          0x5e, 0xab, 0xc1, 0xea, 0x80, 0x49, 0xa2, 0xeb, 0x00, 0x00, 0x00, 0x00,
          0x00, 0x00, 0x00, 0x00, 0x00, 0x00, 0x00, 0x00, 0x00, 0x00, 0x00, 0x00,
          0x00, 0x00, 0x00, 0x00, 0x00, 0x00, 0x00, 0x00, 0x00, 0x00, 0x00, 0x00,
          0x00, 0x00, 0x00, 0x2a]"
    using packed_example by (simp add: solidityPacked_def)
  then show ?thesis by (simp only: keccak256_packed_example)
qed

lemma raw_signed_claim_does_not_verify:
  "\<not> spec_verifyLocally demo_signing raw_signed_claim IDENTITY"
proof -
  let ?h = "keccak256 (be_bytes 20 (unat IDENTITY) @ be_bytes 32 42)"
  let ?sg = "sign demo_signing demo_key ?h"
  have p: "Signature_from_bytes (serialized ?sg) = Inr ?sg"
    using Signature_from_bytes_serialized [OF wf_signed [OF demo_signing_ok], of demo_key ?h]
    by simp
  have s: "sig_s ?sg = demo_s ?h" by (simp add: demo_signing_def)
  have ne: "demo_s ?h \<noteq> demo_s (spec_personal_digest (spec_dataHash IDENTITY 42 []))"
    by (simp add: packed_hash_example personal_digest_example demo_s_def)
  have r: "recoverAddress demo_signing (spec_personal_digest (spec_dataHash IDENTITY 42 [])) ?sg = 0"
    using s ne by (simp add: demo_signing_def)
  show ?thesis
    by (simp add: spec_verifyLocally_def raw_signed_claim_def p r demo_computeAddress)
qed

lemma raw_signed_claim_passes_preflight:
  "preflight demo_chain_recovering IDENTITY raw_signed_claim = Inr ()"
proof -
  let ?h = "keccak256 (be_bytes 20 (unat IDENTITY) @ be_bytes 32 42)"
  let ?sg = "sign demo_signing demo_key ?h"
  have h: "preflight_dataHash IDENTITY 42 [] = Inr ?h"
    by (simp add: preflight_dataHash_in_range)
  have p: "Signature_from_bytes (serialized ?sg) = Inr ?sg"
    using Signature_from_bytes_serialized [OF wf_signed [OF demo_signing_ok], of demo_key ?h]
    by simp
  have g: "getRecoveredAddress demo_chain_recovering IDENTITY (serialized ?sg) ?h =
             Inr (computeAddress demo_signing demo_key)"
    by (simp add: demo_chain_recovering_def demo_getRecoveredAddress_def p
        recover_signed [OF demo_signing_ok])
  show ?thesis
    by (simp add: preflight_def raw_signed_claim_def h g)
qed

lemma demo_kyc_claim_does_not_verify:
  "\<not> spec_verifyLocally demo_signing demo_kyc_claim IDENTITY"
proof -
  have ne: "computeAddress demo_signing demo_key \<noteq> CLAIM_ISSUER_ADDRESS"
    by (simp add: demo_computeAddress CLAIM_ISSUER_ADDRESS_def)
  from spec_verifyLocally_serialized [OF demo_signing_ok, of 42 1 CLAIM_ISSUER_ADDRESS demo_key
      IDENTITY "toUtf8Bytes ''KYC''" "[]"] ne
  show ?thesis by (simp add: demo_kyc_claim_def)
qed

text \<open>
  C4. The claim: for every claim whose signature does not recover to its declared
  issuer, \<open>submitClaim\<close> aborts with a signature-mismatch failure before any
  \<open>addClaim\<close> transaction. Two claims that do not verify, and that the code submits:
  \<^item> the claim \<open>generateClaimSignature\<close> of \<open>handleKyc.js\<close> returns for the example key,
    which declares \<open>CLAIM_ISSUER_ADDRESS\<close>: the contract answers that it is not valid,
    \<open>submitClaim\<close> of \<open>handleKyc.js\<close> drops the answer and sends \<open>addClaim\<close>;
  \<^item> the claim signed as \<open>sigVerify.js\<close> signs, over the packed hash without prefix:
    the pre-flight check of \<open>handleKycV6.js\<close>, which recomputes that hash and not the
    issuer's, passes, and \<open>submitClaim\<close> sends \<open>addClaim\<close>.
\<close>

theorem C4_unverified_claims_are_submitted:
  "generateClaimSignature demo_signing (demo_chain [] (Inr 0)) (Some USER) (Some IDENTITY) 42 =
     Inr demo_kyc_claim \<and>
   \<not> spec_verifyLocally demo_signing demo_kyc_claim IDENTITY \<and>
   checkIsClaimValid (demo_chain [] (Inr 0)) IDENTITY (topic demo_kyc_claim)
     (signature demo_kyc_claim) (data demo_kyc_claim) = Inr False \<and>
   submitClaim (demo_chain [] (Inr 0)) IDENTITY demo_key demo_kyc_claim run0 =
     (Inr (), \<lparr>fee_queries = 1,
               submitted = [addClaim_tx IDENTITY demo_key demo_kyc_claim
                              (demo_quote\<lparr>gasLimit := Some 500000\<rparr>)]\<rparr>) \<and>
   sigVerify_signature demo_signing demo_key IDENTITY 42 [] =
     Inr (signature raw_signed_claim) \<and>
   \<not> spec_verifyLocally demo_signing raw_signed_claim IDENTITY \<and>
   submitClaim_V6 demo_chain_recovering IDENTITY demo_key raw_signed_claim run0 =
     (Inr (), \<lparr>fee_queries = 1,
               submitted = [addClaim_tx IDENTITY demo_key raw_signed_claim demo_quote]\<rparr>)"
proof -
  have k: "ADMIN_PRIVATE_KEY (demo_chain [] (Inr 0)) = Some demo_key"
    by (simp add: demo_chain_def)
  have a: "generateClaimSignature demo_signing (demo_chain [] (Inr 0)) (Some USER) (Some IDENTITY) 42 =
     Inr demo_kyc_claim"
    using generateClaimSignature_valid [OF demo_signing_ok k, of 42 USER IDENTITY]
    by (simp add: demo_kyc_claim_def)
  have v: "checkIsClaimValid (demo_chain [] (Inr 0)) IDENTITY t sg d = Inr False" for t sg d
    by (simp add: checkIsClaimValid_def demo_chain_def)
  have e: "checkEnvVariables (demo_chain [] (Inr 0)) = Inr ()"
    by (simp add: checkEnvVariables_def demo_chain_def)
  have t: "tx_outcome (demo_chain [] (Inr 0)) n t = Submitted ''0x5e11'' (Inr (demo_receipt []))" for n t
    by (simp add: demo_chain_def)
  have d: "submitClaim (demo_chain [] (Inr 0)) IDENTITY demo_key demo_kyc_claim run0 =
     (Inr (), \<lparr>fee_queries = 1,
               submitted = [addClaim_tx IDENTITY demo_key demo_kyc_claim
                              (demo_quote\<lparr>gasLimit := Some 500000\<rparr>)]\<rparr>)"
    by (simp add: submitClaim_def v e t demo_chain_quote bind_io_def lift_io_def return_io_def
        fetchGasOverrides_def send_tx_def run0_def)
  have s: "sigVerify_signature demo_signing demo_key IDENTITY 42 [] =
     Inr (signature raw_signed_claim)"
    using preflight_dataHash_in_range [of 42 IDENTITY "[]"]
    by (simp add: sigVerify_signature_def preflight_dataHash_def raw_signed_claim_def)
  have e': "checkEnvVariables demo_chain_recovering = Inr ()"
    by (simp add: checkEnvVariables_def demo_chain_recovering_def demo_chain_def)
  have t': "tx_outcome demo_chain_recovering n t = Submitted ''0x5e11'' (Inr (demo_receipt []))" for n t
    by (simp add: demo_chain_recovering_def demo_chain_def)
  have q': "getGasOverrides (getFeeData demo_chain_recovering n) = Inr demo_quote" for n
    using demo_chain_quote [of "[]" "Inr 0" n] by (simp add: demo_chain_recovering_def)
  have f: "submitClaim_V6 demo_chain_recovering IDENTITY demo_key raw_signed_claim run0 =
     (Inr (), \<lparr>fee_queries = 1,
               submitted = [addClaim_tx IDENTITY demo_key raw_signed_claim demo_quote]\<rparr>)"
    by (simp add: submitClaim_V6_def e' t' q' raw_signed_claim_passes_preflight bind_io_def
        lift_io_def return_io_def fetchGasOverrides_def send_tx_def run0_def)
  from a demo_kyc_claim_does_not_verify v d s raw_signed_claim_does_not_verify f
  show ?thesis by blast
qed

end
